theory Spec2Isabelle
  imports Main
begin

section \<open>Data model (database/init/01\_schema.sql)\<close>

text \<open>
  The tables of the schema are lists of rows; a row is a record whose fields are the
  columns (prefixed by a table tag, since several tables share column names).
  \<^item> \<open>DECIMAL(10,2)\<close> amounts are integers counting hundredths of a rupee (paise):
    \<open>10.00\<close> is \<open>1000\<close>, the balance limit \<open>10000.00\<close> is \<open>1000000\<close>. The controllers
    read amounts with \<open>parseFloat\<close>; two-decimal amounts below \<open>10^8\<close> are distinct
    doubles and \<open>parseFloat\<close> is monotone, so the comparisons of the controllers are
    the comparisons of the integers.
  \<^item> \<open>TIMESTAMP\<close> values are integers counting microseconds, \<open>DATE\<close> values integers
    counting days. A \<open>clock\<close> holds what one request reads: the \<open>new Date()\<close> of the
    Node process, and the \<open>CURRENT_TIMESTAMP\<close> and \<open>CURRENT_DATE\<close> of the database
    server. A request reads each of them once.
  \<^item> A nullable column is an \<open>option\<close>. The boolean columns \<open>IsUsed\<close>, \<open>IsActive\<close>
    and \<open>IsOperational\<close> have a default and are never written \<open>NULL\<close> by any statement
    of the repository, so they are \<open>bool\<close>.
  \<^item> \<open>SERIAL\<close> keys are drawn by \<open>fresh\<close>: one more than every key of the table.
  \<^item> Columns that no operation of the journey and fare engine reads (names, codes,
    QR text, gateway references) and the audit table \<open>Logs\<close> are left out.
\<close>

datatype journey_type = Ticket | Card
datatype journey_status = Active | Completed | Cancelled
datatype transaction_type = Booking | Recharge
datatype payment_status = Success | Failed | Pending
datatype payment_method = UPI | CreditCard | DebitCard | NetBanking | Wallet

record clock =
  new_Date :: int
  CURRENT_TIMESTAMP :: int
  CURRENT_DATE :: int

record station =
  st_StationID :: int
  st_IsOperational :: bool

record fare =
  fr_FareID :: int
  fr_SourceStationID :: int
  fr_DestinationStationID :: int
  fr_FareAmount :: int
  fr_EffectiveFrom :: "int option"
  fr_EffectiveUntil :: "int option"

record smartcard =
  sc_CardID :: int
  sc_UserID :: "int option"
  sc_Balance :: int
  sc_IsActive :: bool
  sc_LastUsedAt :: "int option"

record txn =
  tx_TransactionID :: int
  tx_UserID :: int
  tx_Amount :: int
  tx_TransactionType :: transaction_type

record booking =
  bk_BookingID :: int
  bk_TransactionID :: int
  bk_SourceStationID :: int
  bk_DestinationStationID :: int
  bk_TotalFare :: int

record recharge =
  rc_RechargeID :: int
  rc_TransactionID :: int
  rc_CardID :: int

record payment =
  pm_PaymentID :: int
  pm_TransactionID :: int
  pm_PaymentMethod :: payment_method
  pm_Status :: payment_status

record ticket =
  tk_TicketID :: int
  tk_BookingID :: int
  tk_ValidFrom :: int
  tk_ValidUntil :: int
  tk_IsUsed :: bool
  tk_UsedAt :: "int option"

record journey =
  jn_JourneyID :: int
  jn_JourneyType :: journey_type
  jn_TicketID :: "int option"
  jn_CardID :: "int option"
  jn_EntryStationID :: int
  jn_EntryTime :: int
  jn_ExitStationID :: "int option"
  jn_ExitTime :: "int option"
  jn_FareDeducted :: "int option"
  jn_Status :: journey_status

record db =
  users :: "int list"
  smartcards :: "smartcard list"
  stations :: "station list"
  transactions :: "txn list"
  bookings :: "booking list"
  recharges :: "recharge list"
  payments :: "payment list"
  tickets :: "ticket list"
  journeys :: "journey list"
  fares :: "fare list"

text \<open>
  What a statement raises. \<open>RAISE EXCEPTION\<close> of a stored function is SQLSTATE
  \<open>P0001\<close>; a violated \<open>CHECK\<close> is \<open>23514\<close>, a violated foreign key \<open>23503\<close>, a
  violated \<open>UNIQUE\<close> \<open>23505\<close>, a \<open>NULL\<close> in a \<open>NOT NULL\<close> column \<open>23502\<close>. The
  statement that raises is rolled back as a whole, so a raising function returns the
  error and no database.
\<close>

datatype sql_error =
    TicketIdRequired
  | TicketInvalidOrUsed
  | CardIdRequired
  | CardNotFoundOrInactive
  | InsufficientBalanceAtEntry
  | JourneyNotFound
  | JourneyNotActive
  | InsufficientBalanceOnCard
  | NoFareFoundForRoute
  | BookingFareMismatch
  | RechargeAmountNotPositive
  | CardNotOwnedByUser
  | CheckViolation string
  | ForeignKeyViolation string
  | UniqueViolation string
  | NotNullViolation string

definition fresh :: "int list \<Rightarrow> int" where
  "fresh ids = foldr max ids 0 + 1"

section \<open>FareCalculator: get\_current\_fare (02\_indexes.sql, 345--364)\<close>

text \<open>
  The \<open>WHERE\<close> clause of the query. A comparison with \<open>NULL\<close> is not true, so a row
  whose \<open>EffectiveFrom\<close> is \<open>NULL\<close> is never selected.
\<close>

definition fare_where :: "clock \<Rightarrow> int \<Rightarrow> int \<Rightarrow> fare \<Rightarrow> bool" where
  "fare_where clk p_source_station_id p_destination_station_id f \<longleftrightarrow>
     fr_SourceStationID f = p_source_station_id
   \<and> fr_DestinationStationID f = p_destination_station_id
   \<and> (case fr_EffectiveFrom f of None \<Rightarrow> False | Some ef \<Rightarrow> ef \<le> CURRENT_DATE clk)
   \<and> (case fr_EffectiveUntil f of None \<Rightarrow> True | Some eu \<Rightarrow> eu > CURRENT_DATE clk)"

text \<open>
  \<open>ORDER BY EffectiveFrom DESC LIMIT 1\<close>: a row with the greatest \<open>EffectiveFrom\<close>;
  among equal dates (which \<open>uq_fare_route\<close> excludes for one route) the earliest row of
  the table. In a descending order PostgreSQL puts \<open>NULL\<close> first, so \<open>NULL\<close> counts as
  greater than every date.
\<close>

fun date_less :: "int option \<Rightarrow> int option \<Rightarrow> bool" where
  "date_less None _ = False"
| "date_less (Some x) None = True"
| "date_less (Some x) (Some y) = (x < y)"

fun order_by_EffectiveFrom_desc_limit_1 :: "fare list \<Rightarrow> fare option" where
  "order_by_EffectiveFrom_desc_limit_1 [] = None"
| "order_by_EffectiveFrom_desc_limit_1 (f # fs) =
     (case order_by_EffectiveFrom_desc_limit_1 fs of
        None \<Rightarrow> Some f
      | Some g \<Rightarrow> if date_less (fr_EffectiveFrom f) (fr_EffectiveFrom g) then Some g else Some f)"

definition get_current_fare :: "clock \<Rightarrow> int \<Rightarrow> int \<Rightarrow> db \<Rightarrow> int" where
  "get_current_fare clk p_source_station_id p_destination_station_id d =
     (case order_by_EffectiveFrom_desc_limit_1
             (filter (fare_where clk p_source_station_id p_destination_station_id) (fares d)) of
        None \<Rightarrow> 0
      | Some f \<Rightarrow> fr_FareAmount f)"

section \<open>Row constraints and single-table statements (01\_schema.sql)\<close>

text \<open>
  \<open>UPDATE SmartCard SET ... WHERE CardID = p_card_id\<close>: the new rows must pass
  \<open>chk_smartcard_balance_nonnegative\<close> and \<open>chk_smartcard_balance_limit\<close>. (A sum
  beyond the ten digits of \<open>DECIMAL(10,2)\<close> raises a numeric overflow instead of the
  second violation; both abort the statement and both reach the caller as a 500.)
\<close>

definition update_smartcard :: "int \<Rightarrow> (smartcard \<Rightarrow> smartcard) \<Rightarrow> db \<Rightarrow> sql_error + db" where
  "update_smartcard p_card_id upd d =
     (let new_rows = map upd (filter (\<lambda>c. sc_CardID c = p_card_id) (smartcards d))
      in if \<exists>c \<in> set new_rows. \<not> sc_Balance c \<ge> 0
           then Inl (CheckViolation ''chk_smartcard_balance_nonnegative'')
         else if \<exists>c \<in> set new_rows. \<not> sc_Balance c \<le> 1000000
           then Inl (CheckViolation ''chk_smartcard_balance_limit'')
         else Inr (d\<lparr>smartcards :=
                      map (\<lambda>c. if sc_CardID c = p_card_id then upd c else c) (smartcards d)\<rparr>))"

definition insert_smartcard :: "int option \<Rightarrow> int \<Rightarrow> bool \<Rightarrow> db \<Rightarrow> sql_error + (smartcard \<times> db)" where
  "insert_smartcard userid balance isactive d =
     (let c = \<lparr>sc_CardID = fresh (map sc_CardID (smartcards d)), sc_UserID = userid,
               sc_Balance = balance, sc_IsActive = isactive, sc_LastUsedAt = None\<rparr>
      in if \<not> balance \<ge> 0 then Inl (CheckViolation ''chk_smartcard_balance_nonnegative'')
         else if \<not> balance \<le> 1000000 then Inl (CheckViolation ''chk_smartcard_balance_limit'')
         else if (case userid of None \<Rightarrow> False | Some u \<Rightarrow> u \<notin> set (users d))
           then Inl (ForeignKeyViolation ''fk_smartcard_user'')
         else Inr (c, d\<lparr>smartcards := smartcards d @ [c]\<rparr>))"

definition insert_transaction :: "int \<Rightarrow> int \<Rightarrow> transaction_type \<Rightarrow> db \<Rightarrow> sql_error + (int \<times> db)" where
  "insert_transaction userid amount ty d =
     (let t = \<lparr>tx_TransactionID = fresh (map tx_TransactionID (transactions d)),
               tx_UserID = userid, tx_Amount = amount, tx_TransactionType = ty\<rparr>
      in if \<not> amount > 0 then Inl (CheckViolation ''chk_transaction_amount_positive'')
         else if userid \<notin> set (users d) then Inl (ForeignKeyViolation ''fk_transaction_user'')
         else Inr (tx_TransactionID t, d\<lparr>transactions := transactions d @ [t]\<rparr>))"

definition insert_payment :: "int \<Rightarrow> payment_method \<Rightarrow> payment_status \<Rightarrow> db \<Rightarrow> sql_error + (int \<times> db)" where
  "insert_payment transactionid method status d =
     (let p = \<lparr>pm_PaymentID = fresh (map pm_PaymentID (payments d)),
               pm_TransactionID = transactionid, pm_PaymentMethod = method, pm_Status = status\<rparr>
      in if transactionid \<in> set (map pm_TransactionID (payments d))
           then Inl (UniqueViolation ''payment_transactionid_key'')
         else if transactionid \<notin> set (map tx_TransactionID (transactions d))
           then Inl (ForeignKeyViolation ''fk_payment_transaction'')
         else Inr (pm_PaymentID p, d\<lparr>payments := payments d @ [p]\<rparr>))"

definition insert_ticket :: "int \<Rightarrow> int \<Rightarrow> int \<Rightarrow> db \<Rightarrow> sql_error + (int \<times> db)" where
  "insert_ticket bookingid validfrom validuntil d =
     (let t = \<lparr>tk_TicketID = fresh (map tk_TicketID (tickets d)), tk_BookingID = bookingid,
               tk_ValidFrom = validfrom, tk_ValidUntil = validuntil,
               tk_IsUsed = False, tk_UsedAt = None\<rparr>
      in if \<not> validuntil > validfrom then Inl (CheckViolation ''chk_ticket_validity_period'')
         else if bookingid \<in> set (map tk_BookingID (tickets d))
           then Inl (UniqueViolation ''ticket_bookingid_key'')
         else if bookingid \<notin> set (map bk_BookingID (bookings d))
           then Inl (ForeignKeyViolation ''fk_ticket_booking'')
         else Inr (tk_TicketID t, d\<lparr>tickets := tickets d @ [t]\<rparr>))"

text \<open>The three \<open>CHECK\<close> constraints and the four foreign keys of \<open>Journey\<close>.\<close>

definition chk_journey :: "journey \<Rightarrow> sql_error option" where
  "chk_journey j =
     (if \<not> ((jn_JourneyType j = Ticket \<and> jn_TicketID j \<noteq> None \<and> jn_CardID j = None)
          \<or> (jn_JourneyType j = Card \<and> jn_CardID j \<noteq> None \<and> jn_TicketID j = None))
        then Some (CheckViolation ''chk_journey_payment_method'')
      else if (case jn_ExitTime j of None \<Rightarrow> False | Some x \<Rightarrow> \<not> x > jn_EntryTime j)
        then Some (CheckViolation ''chk_journey_time_sequence'')
      else if (case jn_FareDeducted j of None \<Rightarrow> False | Some a \<Rightarrow> \<not> a > 0)
        then Some (CheckViolation ''chk_journey_fare_positive'')
      else None)"

definition fk_journey :: "db \<Rightarrow> journey \<Rightarrow> sql_error option" where
  "fk_journey d j =
     (if (case jn_TicketID j of None \<Rightarrow> False | Some t \<Rightarrow> t \<notin> set (map tk_TicketID (tickets d)))
        then Some (ForeignKeyViolation ''fk_journey_ticket'')
      else if (case jn_CardID j of None \<Rightarrow> False | Some c \<Rightarrow> c \<notin> set (map sc_CardID (smartcards d)))
        then Some (ForeignKeyViolation ''fk_journey_card'')
      else if jn_EntryStationID j \<notin> set (map st_StationID (stations d))
        then Some (ForeignKeyViolation ''fk_journey_entry'')
      else if (case jn_ExitStationID j of None \<Rightarrow> False
               | Some s \<Rightarrow> s \<notin> set (map st_StationID (stations d)))
        then Some (ForeignKeyViolation ''fk_journey_exit'')
      else None)"

section \<open>Triggers (02\_indexes.sql, 424--575)\<close>

text \<open>\<open>process_card_recharge\<close>, \<open>AFTER INSERT ON Recharge\<close> (424--453).\<close>

definition process_card_recharge :: "clock \<Rightarrow> recharge \<Rightarrow> db \<Rightarrow> sql_error + db" where
  "process_card_recharge clk NEW d =
     (case find (\<lambda>t. tx_TransactionID t = rc_TransactionID NEW) (transactions d) of
        None \<Rightarrow>
          if \<exists>c \<in> set (smartcards d). sc_CardID c = rc_CardID NEW
          then Inl (NotNullViolation ''balance'') else Inr d
      | Some t \<Rightarrow>
          update_smartcard (rc_CardID NEW)
            (\<lambda>c. c\<lparr>sc_Balance := sc_Balance c + tx_Amount t,
                   sc_LastUsedAt := Some (CURRENT_TIMESTAMP clk)\<rparr>) d)"

text \<open>\<open>update_card_last_used\<close>, \<open>AFTER INSERT ON Journey\<close> (456--472).\<close>

definition update_card_last_used :: "clock \<Rightarrow> journey \<Rightarrow> db \<Rightarrow> sql_error + db" where
  "update_card_last_used clk NEW d =
     (case jn_CardID NEW of
        Some cid \<Rightarrow> update_smartcard cid (\<lambda>c. c\<lparr>sc_LastUsedAt := Some (CURRENT_TIMESTAMP clk)\<rparr>) d
      | None \<Rightarrow> Inr d)"

text \<open>\<open>mark_ticket_used\<close>, \<open>AFTER INSERT ON Journey\<close> (479--497).\<close>

definition mark_ticket_used :: "journey \<Rightarrow> db \<Rightarrow> db" where
  "mark_ticket_used NEW d =
     (case jn_TicketID NEW of
        Some tid \<Rightarrow>
          d\<lparr>tickets := map (\<lambda>t. if tk_TicketID t = tid \<and> tk_IsUsed t = False
                                 then t\<lparr>tk_IsUsed := True, tk_UsedAt := Some (jn_EntryTime NEW)\<rparr>
                                 else t) (tickets d)\<rparr>
      | None \<Rightarrow> d)"

text \<open>
  \<open>complete_journey_fare\<close>, \<open>BEFORE UPDATE ON Journey\<close> (504--547): returns the row to
  store and the database after the deduction. When the card row is missing,
  \<open>v_current_balance\<close> is \<open>NULL\<close>, the comparison is not true and the \<open>ELSE\<close> branch
  raises.
\<close>

definition complete_journey_fare :: "clock \<Rightarrow> journey \<Rightarrow> journey \<Rightarrow> db \<Rightarrow> sql_error + (journey \<times> db)" where
  "complete_journey_fare clk OLD NEW d =
     (case (jn_ExitStationID NEW, jn_CardID NEW) of
        (Some exit_station, Some card_id) \<Rightarrow>
          if jn_Status NEW = Completed \<and> jn_Status OLD \<noteq> Completed then
            (let v_fare = get_current_fare clk (jn_EntryStationID NEW) exit_station d
             in if v_fare > 0 then
                  (case find (\<lambda>c. sc_CardID c = card_id) (smartcards d) of
                     None \<Rightarrow> Inl InsufficientBalanceOnCard
                   | Some c \<Rightarrow>
                       if sc_Balance c \<ge> v_fare then
                         (case update_smartcard card_id
                                 (\<lambda>c. c\<lparr>sc_Balance := sc_Balance c - v_fare\<rparr>) d of
                            Inl e \<Rightarrow> Inl e
                          | Inr d' \<Rightarrow> Inr (NEW\<lparr>jn_FareDeducted := Some v_fare\<rparr>, d'))
                       else Inl InsufficientBalanceOnCard)
                else Inr (NEW, d))
          else Inr (NEW, d)
      | _ \<Rightarrow> Inr (NEW, d))"

text \<open>\<open>validate_booking_fare\<close>, \<open>BEFORE INSERT OR UPDATE ON Booking\<close> (554--575).\<close>

definition validate_booking_fare :: "clock \<Rightarrow> booking \<Rightarrow> db \<Rightarrow> sql_error option" where
  "validate_booking_fare clk NEW d =
     (let v_expected_fare =
            get_current_fare clk (bk_SourceStationID NEW) (bk_DestinationStationID NEW) d
      in if v_expected_fare > 0 \<and> \<bar>bk_TotalFare NEW - v_expected_fare\<bar> > 1
         then Some BookingFareMismatch else None)"

section \<open>Statements with triggers\<close>

text \<open>
  \<open>INSERT INTO Journey\<close>: constraints, then the row triggers \<open>trg_journey_mark_ticket_used\<close>
  and \<open>trg_journey_update_card_usage\<close> (triggers of one event fire in name order).
\<close>

definition insert_journey :: "clock \<Rightarrow> journey \<Rightarrow> db \<Rightarrow> sql_error + db" where
  "insert_journey clk NEW d =
     (case chk_journey NEW of
        Some e \<Rightarrow> Inl e
      | None \<Rightarrow>
         (case fk_journey d NEW of
            Some e \<Rightarrow> Inl e
          | None \<Rightarrow>
              update_card_last_used clk NEW
                (mark_ticket_used NEW (d\<lparr>journeys := journeys d @ [NEW]\<rparr>))))"

text \<open>
  \<open>UPDATE Journey SET ... WHERE JourneyID = p_journey_id RETURNING FareDeducted\<close>, for the
  row \<open>OLD\<close> found under the primary key: the \<open>BEFORE UPDATE\<close> trigger, then the
  constraints on the row it returns.
\<close>

definition update_journey :: "clock \<Rightarrow> journey \<Rightarrow> (journey \<Rightarrow> journey) \<Rightarrow> db \<Rightarrow> sql_error + (journey \<times> db)" where
  "update_journey clk OLD upd d =
     (case complete_journey_fare clk OLD (upd OLD) d of
        Inl e \<Rightarrow> Inl e
      | Inr (NEW, d') \<Rightarrow>
         (case chk_journey NEW of
            Some e \<Rightarrow> Inl e
          | None \<Rightarrow>
             (case fk_journey d' NEW of
                Some e \<Rightarrow> Inl e
              | None \<Rightarrow>
                  Inr (NEW, d'\<lparr>journeys :=
                         map (\<lambda>j. if jn_JourneyID j = jn_JourneyID OLD then NEW else j)
                             (journeys d')\<rparr>))))"

text \<open>\<open>INSERT INTO Booking\<close>: the \<open>BEFORE INSERT\<close> trigger, then the constraints.\<close>

definition insert_booking :: "clock \<Rightarrow> int \<Rightarrow> int \<Rightarrow> int \<Rightarrow> int \<Rightarrow> db \<Rightarrow> sql_error + (int \<times> db)" where
  "insert_booking clk transactionid src dst totalfare d =
     (let b = \<lparr>bk_BookingID = fresh (map bk_BookingID (bookings d)),
               bk_TransactionID = transactionid, bk_SourceStationID = src,
               bk_DestinationStationID = dst, bk_TotalFare = totalfare\<rparr>
      in case validate_booking_fare clk b d of
           Some e \<Rightarrow> Inl e
         | None \<Rightarrow>
             if \<not> src \<noteq> dst then Inl (CheckViolation ''chk_booking_different_stations'')
             else if \<not> totalfare > 0 then Inl (CheckViolation ''chk_booking_fare_positive'')
             else if transactionid \<in> set (map bk_TransactionID (bookings d))
               then Inl (UniqueViolation ''booking_transactionid_key'')
             else if transactionid \<notin> set (map tx_TransactionID (transactions d))
               then Inl (ForeignKeyViolation ''fk_booking_transaction'')
             else if src \<notin> set (map st_StationID (stations d))
               then Inl (ForeignKeyViolation ''fk_booking_source'')
             else if dst \<notin> set (map st_StationID (stations d))
               then Inl (ForeignKeyViolation ''fk_booking_destination'')
             else Inr (bk_BookingID b, d\<lparr>bookings := bookings d @ [b]\<rparr>))"

text \<open>\<open>INSERT INTO Recharge\<close>: the constraints, then \<open>trg_recharge_update_balance\<close>.\<close>

definition insert_recharge :: "clock \<Rightarrow> int \<Rightarrow> int \<Rightarrow> db \<Rightarrow> sql_error + (int \<times> db)" where
  "insert_recharge clk transactionid cardid d =
     (let r = \<lparr>rc_RechargeID = fresh (map rc_RechargeID (recharges d)),
               rc_TransactionID = transactionid, rc_CardID = cardid\<rparr>
      in if transactionid \<in> set (map rc_TransactionID (recharges d))
           then Inl (UniqueViolation ''recharge_transactionid_key'')
         else if transactionid \<notin> set (map tx_TransactionID (transactions d))
           then Inl (ForeignKeyViolation ''fk_recharge_transaction'')
         else if cardid \<notin> set (map sc_CardID (smartcards d))
           then Inl (ForeignKeyViolation ''fk_recharge_card'')
         else (case process_card_recharge clk r (d\<lparr>recharges := recharges d @ [r]\<rparr>) of
                 Inl e \<Rightarrow> Inl e
               | Inr d' \<Rightarrow> Inr (rc_RechargeID r, d')))"

section \<open>Stored procedures (02\_indexes.sql, 582--850)\<close>

text \<open>
  \<open>create_ticket_booking\<close> (582--652). \<open>p_validity_hours\<close> hours are
  \<open>3600000000\<close> microseconds each.
\<close>

definition create_ticket_booking ::
  "clock \<Rightarrow> int \<Rightarrow> int \<Rightarrow> int \<Rightarrow> payment_method \<Rightarrow> int \<Rightarrow> db \<Rightarrow> sql_error + (int \<times> db)" where
  "create_ticket_booking clk p_user_id p_source_station_id p_destination_station_id
       p_payment_method p_validity_hours d =
     (let v_fare = get_current_fare clk p_source_station_id p_destination_station_id d
      in if v_fare \<le> 0 then Inl NoFareFoundForRoute
         else
          (case insert_transaction p_user_id v_fare Booking d of
             Inl e \<Rightarrow> Inl e
           | Inr (v_transaction_id, d1) \<Rightarrow>
            (case insert_booking clk v_transaction_id p_source_station_id
                    p_destination_station_id v_fare d1 of
               Inl e \<Rightarrow> Inl e
             | Inr (v_booking_id, d2) \<Rightarrow>
              (case insert_payment v_transaction_id p_payment_method Success d2 of
                 Inl e \<Rightarrow> Inl e
               | Inr (v_payment_id, d3) \<Rightarrow>
                  insert_ticket v_booking_id (CURRENT_TIMESTAMP clk)
                    (CURRENT_TIMESTAMP clk + p_validity_hours * 3600000000) d3))))"

text \<open>\<open>recharge_smart_card\<close> (658--719): returns \<open>new_balance\<close>.\<close>

definition recharge_smart_card ::
  "clock \<Rightarrow> int \<Rightarrow> int \<Rightarrow> int \<Rightarrow> payment_method \<Rightarrow> db \<Rightarrow> sql_error + (int option \<times> db)" where
  "recharge_smart_card clk p_user_id p_card_id p_amount p_payment_method d =
     (if p_amount \<le> 0 then Inl RechargeAmountNotPositive
      else if \<not> (\<exists>c \<in> set (smartcards d).
                   sc_CardID c = p_card_id \<and> (sc_UserID c = Some p_user_id \<or> sc_UserID c = None))
        then Inl CardNotOwnedByUser
      else
        (case insert_transaction p_user_id p_amount Recharge d of
           Inl e \<Rightarrow> Inl e
         | Inr (v_transaction_id, d1) \<Rightarrow>
          (case insert_recharge clk v_transaction_id p_card_id d1 of
             Inl e \<Rightarrow> Inl e
           | Inr (v_recharge_id, d2) \<Rightarrow>
            (case insert_payment v_transaction_id p_payment_method Success d2 of
               Inl e \<Rightarrow> Inl e
             | Inr (v_payment_id, d3) \<Rightarrow>
                 Inr (map_option sc_Balance
                        (find (\<lambda>c. sc_CardID c = p_card_id) (smartcards d3)), d3)))))"

text \<open>
  \<open>start_journey\<close> (725--800). When no ticket row has the id, \<open>SELECT ... INTO\<close> leaves
  \<open>v_ticket_valid\<close> \<open>NULL\<close>, \<open>IF NOT v_ticket_valid\<close> is not taken and the insert runs
  (and fails on the foreign key). \<open>Balance\<close> is \<open>NOT NULL\<close>, so \<open>v_card_balance\<close> is
  \<open>NULL\<close> exactly when no active card row has the id.
\<close>

definition start_journey ::
  "clock \<Rightarrow> journey_type \<Rightarrow> int \<Rightarrow> int option \<Rightarrow> int option \<Rightarrow> db \<Rightarrow> sql_error + (int \<times> db)" where
  "start_journey clk p_journey_type p_entry_station_id p_ticket_id p_card_id d =
     (let validation =
        (case p_journey_type of
           Ticket \<Rightarrow>
             (case p_ticket_id of
                None \<Rightarrow> Some TicketIdRequired
              | Some tid \<Rightarrow>
                 (case find (\<lambda>t. tk_TicketID t = tid) (tickets d) of
                    None \<Rightarrow> None
                  | Some t \<Rightarrow>
                      if \<not> (tk_IsUsed t = False
                            \<and> tk_ValidFrom t \<le> CURRENT_TIMESTAMP clk
                            \<and> tk_ValidUntil t \<ge> CURRENT_TIMESTAMP clk)
                      then Some TicketInvalidOrUsed else None))
         | Card \<Rightarrow>
             (case p_card_id of
                None \<Rightarrow> Some CardIdRequired
              | Some cid \<Rightarrow>
                 (case find (\<lambda>c. sc_CardID c = cid \<and> sc_IsActive c = True) (smartcards d) of
                    None \<Rightarrow> Some CardNotFoundOrInactive
                  | Some c \<Rightarrow>
                      if sc_Balance c < 1000 then Some InsufficientBalanceAtEntry else None)))
      in case validation of
           Some e \<Rightarrow> Inl e
         | None \<Rightarrow>
            (let v_journey_id = fresh (map jn_JourneyID (journeys d));
                 NEW = \<lparr>jn_JourneyID = v_journey_id, jn_JourneyType = p_journey_type,
                        jn_TicketID = p_ticket_id, jn_CardID = p_card_id,
                        jn_EntryStationID = p_entry_station_id,
                        jn_EntryTime = CURRENT_TIMESTAMP clk,
                        jn_ExitStationID = None, jn_ExitTime = None,
                        jn_FareDeducted = None, jn_Status = Active\<rparr>
             in case insert_journey clk NEW d of
                  Inl e \<Rightarrow> Inl e
                | Inr d' \<Rightarrow> Inr (v_journey_id, d')))"

text \<open>
  \<open>complete_journey\<close> (806--850): returns \<open>fare_deducted\<close>, the \<open>FareDeducted\<close> of the
  updated row. \<open>INTERVAL '1 second'\<close> is \<open>1000000\<close> microseconds.
\<close>

definition complete_journey ::
  "clock \<Rightarrow> int \<Rightarrow> int \<Rightarrow> db \<Rightarrow> sql_error + (int option \<times> db)" where
  "complete_journey clk p_journey_id p_exit_station_id d =
     (case find (\<lambda>j. jn_JourneyID j = p_journey_id) (journeys d) of
        None \<Rightarrow> Inl JourneyNotFound
      | Some v_journey \<Rightarrow>
          if jn_Status v_journey \<noteq> Active then Inl JourneyNotActive
          else
            (case update_journey clk v_journey
                    (\<lambda>j. j\<lparr>jn_ExitStationID := Some p_exit_station_id,
                           jn_ExitTime := Some (CURRENT_TIMESTAMP clk + 1000000),
                           jn_Status := Completed\<rparr>) d of
               Inl e \<Rightarrow> Inl e
             | Inr (NEW, d') \<Rightarrow> Inr (jn_FareDeducted NEW, d')))"

section \<open>Controllers (backend/src/controllers)\<close>

text \<open>
  A handler returns its response and the database it leaves. The statements of a
  handler are sent one by one; a statement that raises is rolled back, the rejection
  reaches \<open>asyncHandler\<close> and \<open>errorHandler\<close> (middleware/errorHandler.js) turns it into
  a response. \<open>parseFloat(null)\<close> is \<open>NaN\<close>, and arithmetic on \<open>NaN\<close> is \<open>NaN\<close>.
  Reading a field of \<open>rows[0]\<close> when the query returned no row throws a \<open>TypeError\<close>.
  Gate terminals send \<open>mediaId\<close> and \<open>stationId\<close> as JSON numbers.
\<close>

datatype jsnum = Num int | NaN

datatype message =
    StationNotFound
  | StationNotOperational
  | TicketNotFound
  | TicketAlreadyUsed
  | TicketNotValidAtThisTime
  | EntryStationMismatch
  | ActiveJourneyExistsForTicket
  | ActiveJourneyExistsForCard
  | CardNotFound
  | CardNotActive
  | InsufficientBalance
  | InvalidMediaType
  | NoActiveJourney
  | InsufficientFare
  | SameStations
  | StationsNotFoundOrNotOperational
  | FareNotFound
  | AlreadyHasActiveCard
  | NoActiveSmartCard
  | ValidationFailed
  | ResourceAlreadyExists
  | InvalidReference
  | RequiredFieldMissing
  | DatabaseMessage sql_error
  | TypeErrorMessage

datatype response =
    Error int message
  | EntryPermitted int
  | ExitPermitted int jsnum "jsnum option" bool
  | CardRegistered int
  | CardRecharged jsnum
  | TicketBooked int
  | FareRetrieved int

definition errorHandler :: "sql_error \<Rightarrow> response" where
  "errorHandler err =
     (case err of
        UniqueViolation c \<Rightarrow> Error 409 ResourceAlreadyExists
      | ForeignKeyViolation c \<Rightarrow> Error 400 InvalidReference
      | NotNullViolation c \<Rightarrow> Error 400 RequiredFieldMissing
      | _ \<Rightarrow> Error 500 (DatabaseMessage err))"

definition parseFloat :: "int option \<Rightarrow> jsnum" where
  "parseFloat v = (case v of None \<Rightarrow> NaN | Some x \<Rightarrow> Num x)"

fun js_minus :: "jsnum \<Rightarrow> jsnum \<Rightarrow> jsnum" where
  "js_minus (Num a) (Num b) = Num (a - b)"
| "js_minus _ _ = NaN"

text \<open>The queries of journey.controller.js, each returning its rows.\<close>

definition select_ticket_with_booking :: "int \<Rightarrow> db \<Rightarrow> (ticket \<times> booking) list" where
  "select_ticket_with_booking mediaId d =
     [(t, b). t \<leftarrow> tickets d, tk_TicketID t = mediaId,
              b \<leftarrow> bookings d, tk_BookingID t = bk_BookingID b]"

definition select_active_journey_of_ticket :: "int \<Rightarrow> db \<Rightarrow> journey list" where
  "select_active_journey_of_ticket mediaId d =
     filter (\<lambda>j. jn_TicketID j = Some mediaId \<and> jn_Status j = Active) (journeys d)"

definition select_active_journey_of_card :: "int \<Rightarrow> db \<Rightarrow> journey list" where
  "select_active_journey_of_card mediaId d =
     filter (\<lambda>j. jn_CardID j = Some mediaId \<and> jn_Status j = Active) (journeys d)"

definition select_active_journey_with_booking :: "int \<Rightarrow> db \<Rightarrow> (journey \<times> booking) list" where
  "select_active_journey_with_booking mediaId d =
     [(j, b). j \<leftarrow> select_active_journey_of_ticket mediaId d,
              t \<leftarrow> tickets d, jn_TicketID j = Some (tk_TicketID t),
              b \<leftarrow> bookings d, tk_BookingID t = bk_BookingID b]"

text \<open>\<open>journeyEntry\<close> (journey.controller.js, 11--169).\<close>

definition journeyEntry :: "clock \<Rightarrow> string \<Rightarrow> int \<Rightarrow> int \<Rightarrow> db \<Rightarrow> response \<times> db" where
  "journeyEntry clk mediaType mediaId stationId d =
     (case find (\<lambda>s. st_StationID s = stationId) (stations d) of
        None \<Rightarrow> (Error 404 StationNotFound, d)
      | Some station \<Rightarrow>
         if \<not> st_IsOperational station then (Error 400 StationNotOperational, d)
         else if mediaType = ''Ticket'' then
           (case select_ticket_with_booking mediaId d of
              [] \<Rightarrow> (Error 404 TicketNotFound, d)
            | (ticket, b) # _ \<Rightarrow>
               if tk_IsUsed ticket then (Error 400 TicketAlreadyUsed, d)
               else if new_Date clk < tk_ValidFrom ticket
                     \<or> new_Date clk > tk_ValidUntil ticket
                 then (Error 400 TicketNotValidAtThisTime, d)
               else if bk_SourceStationID b \<noteq> stationId
                 then (Error 400 EntryStationMismatch, d)
               else if length (select_active_journey_of_ticket mediaId d) > 0
                 then (Error 400 ActiveJourneyExistsForTicket, d)
               else
                 (case start_journey clk Ticket stationId (Some mediaId) None d of
                    Inl e \<Rightarrow> (errorHandler e, d)
                  | Inr (journeyId, d') \<Rightarrow> (EntryPermitted journeyId, d')))
         else if mediaType = ''Card'' then
           (case find (\<lambda>c. sc_CardID c = mediaId) (smartcards d) of
              None \<Rightarrow> (Error 404 CardNotFound, d)
            | Some card0 \<Rightarrow>
               if \<not> sc_IsActive card0 then (Error 400 CardNotActive, d)
               else if sc_Balance card0 < 1000 then (Error 400 InsufficientBalance, d)
               else if length (select_active_journey_of_card mediaId d) > 0
                 then (Error 400 ActiveJourneyExistsForCard, d)
               else
                 (case start_journey clk Card stationId None (Some mediaId) d of
                    Inl e \<Rightarrow> (errorHandler e, d)
                  | Inr (journeyId, d') \<Rightarrow> (EntryPermitted journeyId, d')))
         else (Error 400 InvalidMediaType, d))"

text \<open>
  The card branch of \<open>journeyEntry\<close>, statement by statement. Every \<open>await query(...)\<close>
  of the handler is sent on its own through the pool (\<open>getClient\<close> is imported and
  never used: no transaction spans two statements, no row is locked, and \<open>Journey\<close> has
  no unique index on active rows), so between two statements of one request the
  statements of another may run. \<open>journeyEntry_card_checks\<close> is the three \<open>SELECT\<close>s
  (station, card, active journey) with the checks the handler makes on their rows;
  \<open>None\<close> means that all passed. \<open>journeyEntry_card_start\<close> is the statement that
  follows, \<open>SELECT start_journey(...)\<close>, with the response.
\<close>

definition journeyEntry_card_checks :: "int \<Rightarrow> int \<Rightarrow> db \<Rightarrow> response option" where
  "journeyEntry_card_checks mediaId stationId d =
     (case find (\<lambda>s. st_StationID s = stationId) (stations d) of
        None \<Rightarrow> Some (Error 404 StationNotFound)
      | Some station \<Rightarrow>
         if \<not> st_IsOperational station then Some (Error 400 StationNotOperational)
         else
           (case find (\<lambda>c. sc_CardID c = mediaId) (smartcards d) of
              None \<Rightarrow> Some (Error 404 CardNotFound)
            | Some card0 \<Rightarrow>
               if \<not> sc_IsActive card0 then Some (Error 400 CardNotActive)
               else if sc_Balance card0 < 1000 then Some (Error 400 InsufficientBalance)
               else if length (select_active_journey_of_card mediaId d) > 0
                 then Some (Error 400 ActiveJourneyExistsForCard)
               else None))"

definition journeyEntry_card_start :: "clock \<Rightarrow> int \<Rightarrow> int \<Rightarrow> db \<Rightarrow> response \<times> db" where
  "journeyEntry_card_start clk mediaId stationId d =
     (case start_journey clk Card stationId None (Some mediaId) d of
        Inl e \<Rightarrow> (errorHandler e, d)
      | Inr (journeyId, d') \<Rightarrow> (EntryPermitted journeyId, d'))"

text \<open>
  Two card entries, A and B, that arrive together, in the order: the \<open>SELECT\<close>s of A,
  the \<open>SELECT\<close>s of B, \<open>start_journey\<close> of A, \<open>start_journey\<close> of B. Both requests read
  the database as it was before either wrote; a request whose checks fail answers at
  once and writes nothing. The result is the two responses and the database left.
\<close>

definition two_card_entries_interleaved ::
  "clock \<Rightarrow> int \<Rightarrow> int \<Rightarrow> clock \<Rightarrow> int \<Rightarrow> int \<Rightarrow> db \<Rightarrow> (response \<times> response) \<times> db" where
  "two_card_entries_interleaved clkA mediaA stationA clkB mediaB stationB d =
     (case journeyEntry_card_checks mediaA stationA d of
        Some rA \<Rightarrow>
          (case journeyEntry_card_checks mediaB stationB d of
             Some rB \<Rightarrow> ((rA, rB), d)
           | None \<Rightarrow>
               (case journeyEntry_card_start clkB mediaB stationB d of
                  (rB, d') \<Rightarrow> ((rA, rB), d')))
      | None \<Rightarrow>
          (case journeyEntry_card_checks mediaB stationB d of
             Some rB \<Rightarrow>
               (case journeyEntry_card_start clkA mediaA stationA d of
                  (rA, d') \<Rightarrow> ((rA, rB), d'))
           | None \<Rightarrow>
               (case journeyEntry_card_start clkA mediaA stationA d of
                  (rA, d1) \<Rightarrow>
                    (case journeyEntry_card_start clkB mediaB stationB d1 of
                       (rB, d2) \<Rightarrow> ((rA, rB), d2)))))"

text \<open>\<open>journeyExit\<close> (journey.controller.js, 176--339).\<close>

definition journeyExit :: "clock \<Rightarrow> string \<Rightarrow> int \<Rightarrow> int \<Rightarrow> db \<Rightarrow> response \<times> db" where
  "journeyExit clk mediaType mediaId stationId d =
     (case find (\<lambda>s. st_StationID s = stationId) (stations d) of
        None \<Rightarrow> (Error 404 StationNotFound, d)
      | Some station \<Rightarrow>
         if \<not> st_IsOperational station then (Error 400 StationNotOperational, d)
         else if mediaType = ''Ticket'' then
           (case select_active_journey_with_booking mediaId d of
              [] \<Rightarrow> (Error 404 NoActiveJourney, d)
            | (journey, b) # _ \<Rightarrow>
               (let paidFare = bk_TotalFare b;
                    actualFare = get_current_fare clk (jn_EntryStationID journey) stationId d
                in if actualFare > paidFare then (Error 400 InsufficientFare, d)
                   else if stationId \<noteq> bk_DestinationStationID b
                         \<and> find (\<lambda>s. st_StationID s = bk_DestinationStationID b) (stations d) = None
                     then (Error 500 TypeErrorMessage, d)
                   else
                     (case complete_journey clk (jn_JourneyID journey) stationId d of
                        Inl e \<Rightarrow> (errorHandler e, d)
                      | Inr (fare_deducted, d') \<Rightarrow>
                          (ExitPermitted (jn_JourneyID journey) (Num paidFare) None
                             (stationId \<noteq> bk_DestinationStationID b), d'))))
         else if mediaType = ''Card'' then
           (case select_active_journey_of_card mediaId d of
              [] \<Rightarrow> (Error 404 NoActiveJourney, d)
            | journey # _ \<Rightarrow>
               (case find (\<lambda>c. sc_CardID c = mediaId) (smartcards d) of
                  None \<Rightarrow> (Error 500 TypeErrorMessage, d)
                | Some card0 \<Rightarrow>
                   (let currentBalance = sc_Balance card0;
                        fare = get_current_fare clk (jn_EntryStationID journey) stationId d
                    in if currentBalance < fare then (Error 400 InsufficientBalance, d)
                       else
                         (case complete_journey clk (jn_JourneyID journey) stationId d of
                            Inl e \<Rightarrow> (errorHandler e, d)
                          | Inr (fare_deducted, d') \<Rightarrow>
                              (let fareDeducted = parseFloat fare_deducted;
                                   newBalance = js_minus (Num currentBalance) fareDeducted
                               in (ExitPermitted (jn_JourneyID journey) fareDeducted
                                     (Some newBalance) False, d'))))))
         else (Error 400 InvalidMediaType, d))"

text \<open>
  \<open>registerCard\<close> and \<open>rechargeCard\<close> (card.controller.js). The three inserts of
  \<open>registerCard\<close> are three statements: one that raises leaves the earlier ones in place.
  \<open>recharge_smart_card\<close> returns one row whenever it returns, so the branch of
  \<open>rechargeCard\<close> for an empty result is never taken.
\<close>

definition registerCard :: "clock \<Rightarrow> int \<Rightarrow> payment_method \<Rightarrow> db \<Rightarrow> response \<times> db" where
  "registerCard clk userId paymentMethod d =
     (if length (filter (\<lambda>c. sc_UserID c = Some userId \<and> sc_IsActive c = True) (smartcards d)) > 0
      then (Error 400 AlreadyHasActiveCard, d)
      else
        (case insert_transaction userId 5000 Recharge d of
           Inl e \<Rightarrow> (errorHandler e, d)
         | Inr (transactionId, d1) \<Rightarrow>
            (case insert_payment transactionId paymentMethod Success d1 of
               Inl e \<Rightarrow> (errorHandler e, d1)
             | Inr (paymentId, d2) \<Rightarrow>
                (case insert_smartcard (Some userId) 0 True d2 of
                   Inl e \<Rightarrow> (errorHandler e, d2)
                 | Inr (card0, d3) \<Rightarrow> (CardRegistered (sc_CardID card0), d3)))))"

definition rechargeCard :: "clock \<Rightarrow> int \<Rightarrow> int \<Rightarrow> payment_method \<Rightarrow> db \<Rightarrow> response \<times> db" where
  "rechargeCard clk userId amount paymentMethod d =
     (case filter (\<lambda>c. sc_UserID c = Some userId \<and> sc_IsActive c = True) (smartcards d) of
        [] \<Rightarrow> (Error 404 NoActiveSmartCard, d)
      | card0 # _ \<Rightarrow>
         (case recharge_smart_card clk userId (sc_CardID card0) amount paymentMethod d of
            Inl e \<Rightarrow> (errorHandler e, d)
          | Inr (new_balance, d') \<Rightarrow> (CardRecharged (parseFloat new_balance), d')))"

text \<open>
  \<open>bookTicket\<close> (ticket.controller.js) books with a validity of 24 hours and then reads
  the two stations; \<open>getFare\<close> (station.controller.js, 34--83) reads only.
\<close>

definition bookTicket :: "clock \<Rightarrow> int \<Rightarrow> int \<Rightarrow> int \<Rightarrow> payment_method \<Rightarrow> db \<Rightarrow> response \<times> db" where
  "bookTicket clk userId fromStationId toStationId paymentMethod d =
     (if fromStationId = toStationId then (Error 400 SameStations, d)
      else
        (case create_ticket_booking clk userId fromStationId toStationId paymentMethod 24 d of
           Inl e \<Rightarrow> (errorHandler e, d)
         | Inr (ticket_id, d') \<Rightarrow>
            if find (\<lambda>s. st_StationID s = fromStationId) (stations d') = None
               \<or> find (\<lambda>s. st_StationID s = toStationId) (stations d') = None
            then (Error 500 TypeErrorMessage, d')
            else (TicketBooked ticket_id, d')))"

definition getFare :: "clock \<Rightarrow> int \<Rightarrow> int \<Rightarrow> db \<Rightarrow> response" where
  "getFare clk fromStationId toStationId d =
     (if fromStationId = toStationId then Error 400 SameStations
      else if length (filter (\<lambda>s. (st_StationID s = fromStationId \<or> st_StationID s = toStationId)
                                  \<and> st_IsOperational s = True) (stations d)) \<noteq> 2
        then Error 404 StationsNotFoundOrNotOperational
      else
        (let fare = get_current_fare clk fromStationId toStationId d
         in if fare \<le> 0 then Error 404 FareNotFound else FareRetrieved fare))"

section \<open>Routes and runs of requests\<close>

text \<open>
  The routes put the validators of middleware/validators.js in front of the handlers.
  The user id of a protected route is the one the \<open>authenticate\<close> middleware supplies.
\<close>

datatype request =
    PostJourneyEntry string int int
  | PostJourneyExit string int int
  | PostCardsRegister int payment_method
  | PostCardsRecharge int int payment_method
  | PostTicketsBook int int int payment_method
  | GetStationsFares int int

fun handle :: "clock \<Rightarrow> request \<Rightarrow> db \<Rightarrow> response \<times> db" where
  "handle clk (PostJourneyEntry mediaType mediaId stationId) d =
     (if (mediaType \<noteq> ''Ticket'' \<and> mediaType \<noteq> ''Card'') \<or> mediaId < 1 \<or> stationId < 1
      then (Error 400 ValidationFailed, d)
      else journeyEntry clk mediaType mediaId stationId d)"
| "handle clk (PostJourneyExit mediaType mediaId stationId) d =
     (if (mediaType \<noteq> ''Ticket'' \<and> mediaType \<noteq> ''Card'') \<or> mediaId < 1 \<or> stationId < 1
      then (Error 400 ValidationFailed, d)
      else journeyExit clk mediaType mediaId stationId d)"
| "handle clk (PostCardsRegister userId paymentMethod) d = registerCard clk userId paymentMethod d"
| "handle clk (PostCardsRecharge userId amount paymentMethod) d =
     (if amount < 1000 \<or> amount > 1000000 then (Error 400 ValidationFailed, d)
      else rechargeCard clk userId amount paymentMethod d)"
| "handle clk (PostTicketsBook userId fromStationId toStationId paymentMethod) d =
     (if fromStationId < 1 \<or> toStationId < 1 then (Error 400 ValidationFailed, d)
      else bookTicket clk userId fromStationId toStationId paymentMethod d)"
| "handle clk (GetStationsFares fromStationId toStationId) d =
     (if fromStationId < 1 \<or> toStationId < 1 then (Error 400 ValidationFailed, d)
      else (getFare clk fromStationId toStationId d, d))"

fun run :: "(clock \<times> request) list \<Rightarrow> db \<Rightarrow> db" where
  "run [] d = d"
| "run ((clk, r) # rs) d = run rs (snd (handle clk r d))"

section \<open>An example network\<close>

text \<open>
  Three stations; the route from station 1 to station 2 has an expired fare of 20.00, a
  current fare of 30.00 and a fare of 40.00 that starts on day 20. Card 1 holds 50.00,
  card 2 holds 15.00. The clocks read day 10.
\<close>

definition clk_ex :: clock where
  "clk_ex = \<lparr>new_Date = 100, CURRENT_TIMESTAMP = 100, CURRENT_DATE = 10\<rparr>"

definition db_ex :: db where
  "db_ex =
     \<lparr>users = [1],
      smartcards =
        [\<lparr>sc_CardID = 1, sc_UserID = Some 1, sc_Balance = 5000, sc_IsActive = True,
           sc_LastUsedAt = None\<rparr>,
         \<lparr>sc_CardID = 2, sc_UserID = None, sc_Balance = 1500, sc_IsActive = True,
           sc_LastUsedAt = None\<rparr>],
      stations =
        [\<lparr>st_StationID = 1, st_IsOperational = True\<rparr>,
         \<lparr>st_StationID = 2, st_IsOperational = True\<rparr>,
         \<lparr>st_StationID = 3, st_IsOperational = True\<rparr>],
      transactions = [], bookings = [], recharges = [], payments = [], tickets = [],
      journeys = [],
      fares =
        [\<lparr>fr_FareID = 1, fr_SourceStationID = 1, fr_DestinationStationID = 2,
           fr_FareAmount = 2000, fr_EffectiveFrom = Some 0, fr_EffectiveUntil = Some 5\<rparr>,
         \<lparr>fr_FareID = 2, fr_SourceStationID = 1, fr_DestinationStationID = 2,
           fr_FareAmount = 3000, fr_EffectiveFrom = Some 5, fr_EffectiveUntil = None\<rparr>,
         \<lparr>fr_FareID = 3, fr_SourceStationID = 1, fr_DestinationStationID = 2,
           fr_FareAmount = 4000, fr_EffectiveFrom = Some 20, fr_EffectiveUntil = None\<rparr>]\<rparr>"

text \<open>
  \<open>db_entered\<close>: card 1 has entered at station 1 (journey 1 is \<open>Active\<close>).
  \<open>db_settled\<close>: it has left at station 2 and paid 30.00.
  \<open>db_free_ride\<close>: it has left at station 3; no fare row exists from station 1 to
  station 3.
\<close>

definition journey_ex :: journey where
  "journey_ex =
     \<lparr>jn_JourneyID = 1, jn_JourneyType = Card, jn_TicketID = None, jn_CardID = Some 1,
      jn_EntryStationID = 1, jn_EntryTime = 100, jn_ExitStationID = None,
      jn_ExitTime = None, jn_FareDeducted = None, jn_Status = Active\<rparr>"

definition db_entered :: db where
  "db_entered =
     db_ex\<lparr>smartcards :=
             [\<lparr>sc_CardID = 1, sc_UserID = Some 1, sc_Balance = 5000, sc_IsActive = True,
                sc_LastUsedAt = Some 100\<rparr>,
              \<lparr>sc_CardID = 2, sc_UserID = None, sc_Balance = 1500, sc_IsActive = True,
                sc_LastUsedAt = None\<rparr>],
           journeys := [journey_ex]\<rparr>"

definition db_settled :: db where
  "db_settled =
     db_entered\<lparr>smartcards :=
             [\<lparr>sc_CardID = 1, sc_UserID = Some 1, sc_Balance = 2000, sc_IsActive = True,
                sc_LastUsedAt = Some 100\<rparr>,
              \<lparr>sc_CardID = 2, sc_UserID = None, sc_Balance = 1500, sc_IsActive = True,
                sc_LastUsedAt = None\<rparr>],
           journeys :=
             [journey_ex\<lparr>jn_ExitStationID := Some 2, jn_ExitTime := Some 1000100,
                          jn_FareDeducted := Some 3000, jn_Status := Completed\<rparr>]\<rparr>"

definition db_free_ride :: db where
  "db_free_ride =
     db_entered\<lparr>journeys :=
             [journey_ex\<lparr>jn_ExitStationID := Some 3, jn_ExitTime := Some 1000100,
                          jn_Status := Completed\<rparr>]\<rparr>"

text \<open>\<open>db_entered2\<close>: card 2, which holds 15.00, has entered at station 1.\<close>

definition journey_ex2 :: journey where
  "journey_ex2 =
     \<lparr>jn_JourneyID = 1, jn_JourneyType = Card, jn_TicketID = None, jn_CardID = Some 2,
      jn_EntryStationID = 1, jn_EntryTime = 100, jn_ExitStationID = None,
      jn_ExitTime = None, jn_FareDeducted = None, jn_Status = Active\<rparr>"

definition card_ex2 :: smartcard where
  "card_ex2 =
     \<lparr>sc_CardID = 2, sc_UserID = None, sc_Balance = 1500, sc_IsActive = True,
      sc_LastUsedAt = Some 100\<rparr>"

definition db_entered2 :: db where
  "db_entered2 =
     db_ex\<lparr>smartcards :=
             [\<lparr>sc_CardID = 1, sc_UserID = Some 1, sc_Balance = 5000, sc_IsActive = True,
                sc_LastUsedAt = None\<rparr>, card_ex2],
           journeys := [journey_ex2]\<rparr>"

text \<open>
  \<open>db_booked\<close>: user 1 has booked a ticket from station 1 to station 2, valid for 24
  hours from the clock's time.
\<close>

definition ticket_ex :: ticket where
  "ticket_ex =
     \<lparr>tk_TicketID = 1, tk_BookingID = 1, tk_ValidFrom = 100, tk_ValidUntil = 86400000100,
      tk_IsUsed = False, tk_UsedAt = None\<rparr>"

definition booking_ex :: booking where
  "booking_ex =
     \<lparr>bk_BookingID = 1, bk_TransactionID = 1, bk_SourceStationID = 1,
      bk_DestinationStationID = 2, bk_TotalFare = 3000\<rparr>"

definition db_booked :: db where
  "db_booked =
     db_ex\<lparr>transactions :=
             [\<lparr>tx_TransactionID = 1, tx_UserID = 1, tx_Amount = 3000,
                tx_TransactionType = Booking\<rparr>],
           bookings := [booking_ex],
           payments :=
             [\<lparr>pm_PaymentID = 1, pm_TransactionID = 1, pm_PaymentMethod = UPI,
                pm_Status = Success\<rparr>],
           tickets := [ticket_ex]\<rparr>"

text \<open>
  \<open>db_ticket_entered\<close>: the ticket has been presented at station 1 (journey 1 is
  \<open>Active\<close>, the ticket is used). \<open>db_ticket_left\<close>: its holder has left at station 2.
\<close>

definition journey_ex3 :: journey where
  "journey_ex3 =
     \<lparr>jn_JourneyID = 1, jn_JourneyType = Ticket, jn_TicketID = Some 1, jn_CardID = None,
      jn_EntryStationID = 1, jn_EntryTime = 100, jn_ExitStationID = None,
      jn_ExitTime = None, jn_FareDeducted = None, jn_Status = Active\<rparr>"

definition db_ticket_entered :: db where
  "db_ticket_entered =
     db_booked\<lparr>tickets := [ticket_ex\<lparr>tk_IsUsed := True, tk_UsedAt := Some 100\<rparr>],
               journeys := [journey_ex3]\<rparr>"

definition db_ticket_left :: db where
  "db_ticket_left =
     db_ticket_entered\<lparr>journeys :=
        [journey_ex3\<lparr>jn_ExitStationID := Some 2, jn_ExitTime := Some 1000100,
                      jn_Status := Completed\<rparr>]\<rparr>"

text \<open>
  \<open>db_two_active\<close>: card 1 has two \<open>Active\<close> journeys, both entered at station 1.
\<close>

definition db_two_active :: db where
  "db_two_active = db_entered\<lparr>journeys := [journey_ex, journey_ex\<lparr>jn_JourneyID := 2\<rparr>]\<rparr>"

text \<open>
  \<open>db_fares_ex\<close>: the example network with two more fare rows. From station 1 to
  station 2 there is also a fare of 35.00 that started on day 7 and ended on day 9: it
  started later than the current fare of 30.00 and is expired on day 10. From station 2
  to station 1 the fare is 25.00.
\<close>

definition db_fares_ex :: db where
  "db_fares_ex =
     db_ex\<lparr>fares :=
        [\<lparr>fr_FareID = 1, fr_SourceStationID = 1, fr_DestinationStationID = 2,
           fr_FareAmount = 2000, fr_EffectiveFrom = Some 0, fr_EffectiveUntil = Some 5\<rparr>,
         \<lparr>fr_FareID = 2, fr_SourceStationID = 1, fr_DestinationStationID = 2,
           fr_FareAmount = 3000, fr_EffectiveFrom = Some 5, fr_EffectiveUntil = None\<rparr>,
         \<lparr>fr_FareID = 3, fr_SourceStationID = 1, fr_DestinationStationID = 2,
           fr_FareAmount = 4000, fr_EffectiveFrom = Some 20, fr_EffectiveUntil = None\<rparr>,
         \<lparr>fr_FareID = 4, fr_SourceStationID = 1, fr_DestinationStationID = 2,
           fr_FareAmount = 3500, fr_EffectiveFrom = Some 7, fr_EffectiveUntil = Some 9\<rparr>,
         \<lparr>fr_FareID = 5, fr_SourceStationID = 2, fr_DestinationStationID = 1,
           fr_FareAmount = 2500, fr_EffectiveFrom = Some 0, fr_EffectiveUntil = None\<rparr>]\<rparr>"

section \<open>List facts\<close>

lemma le_foldr_max: "x \<in> set ids \<Longrightarrow> x \<le> foldr max ids (0::int)"
  by (induction ids) auto

lemma fresh_notin: "fresh ids \<notin> set ids"
proof
  assume "fresh ids \<in> set ids"
  then have "fresh ids \<le> foldr max ids 0" by (rule le_foldr_max)
  then show False by (simp add: fresh_def)
qed

lemma find_SomeD: "find P xs = Some x \<Longrightarrow> P x \<and> x \<in> set xs"
  by (auto simp: find_Some_iff)

lemma find_map_key:
  assumes "\<And>x. key (f x) = key x"
  shows "find (\<lambda>x. key x = k) (map f xs) = map_option f (find (\<lambda>x. key x = k) xs)"
  by (induction xs) (auto simp: assms)

lemma find_map_upd_key:
  assumes "\<And>x. key (f x) = key x"
  shows "find (\<lambda>x. key x = k) (map (\<lambda>x. if key x = k' then f x else x) xs)
       = map_option (\<lambda>x. if key x = k' then f x else x) (find (\<lambda>x. key x = k) xs)"
  by (induction xs) (auto simp: assms)

lemma find_replace:
  assumes "key N = k"
  shows "find (\<lambda>x. key x = k) (map (\<lambda>x. if key x = k then N else x) xs)
       = (if find (\<lambda>x. key x = k) xs = None then None else Some N)"
  by (induction xs) (auto simp: assms)

lemma length_filter_map_le:
  assumes "\<And>x. x \<in> set xs \<Longrightarrow> P (f x) \<Longrightarrow> P x"
  shows "length (filter P (map f xs)) \<le> length (filter P xs)"
  using assms by (induction xs) auto


section \<open>Fare selection\<close>

lemma limit_1_None: "order_by_EffectiveFrom_desc_limit_1 fs = None \<longleftrightarrow> fs = []"
  by (induction fs) (auto split: option.splits)

lemma date_less_trans: "date_less a b \<Longrightarrow> date_less b c \<Longrightarrow> date_less a c"
  by (cases a; cases b; cases c) auto

lemma date_less_irrefl: "\<not> date_less a a"
  by (cases a) auto

lemma limit_1_greatest:
  "order_by_EffectiveFrom_desc_limit_1 fs = Some f \<Longrightarrow>
   f \<in> set fs \<and> (\<forall>g \<in> set fs. \<not> date_less (fr_EffectiveFrom f) (fr_EffectiveFrom g))"
proof (induction fs arbitrary: f)
  case Nil
  then show ?case by simp
next
  case (Cons a fs)
  show ?case
  proof (cases "order_by_EffectiveFrom_desc_limit_1 fs")
    case None
    then have "fs = []" by (simp add: limit_1_None)
    with Cons.prems None show ?thesis by (simp add: date_less_irrefl)
  next
    case (Some g)
    note ih = Cons.IH [OF Some]
    show ?thesis
    proof (cases "date_less (fr_EffectiveFrom a) (fr_EffectiveFrom g)")
      case True
      with Cons.prems Some have "f = g" by simp
      with ih True show ?thesis by (auto dest: date_less_trans simp: date_less_irrefl)
    next
      case False
      with Cons.prems Some have fa: "f = a" by simp
      have "\<not> date_less (fr_EffectiveFrom a) (fr_EffectiveFrom h)" if "h \<in> set fs" for h
      proof
        assume l: "date_less (fr_EffectiveFrom a) (fr_EffectiveFrom h)"
        from ih that have n: "\<not> date_less (fr_EffectiveFrom g) (fr_EffectiveFrom h)" by blast
        from l n False show False
          by (cases "fr_EffectiveFrom a"; cases "fr_EffectiveFrom g"; cases "fr_EffectiveFrom h") auto
      qed
      with fa show ?thesis by (auto simp: date_less_irrefl)
    qed
  qed
qed

lemma fare_where_from:
  "fare_where clk s t f \<Longrightarrow> \<exists>ef. fr_EffectiveFrom f = Some ef \<and> ef \<le> CURRENT_DATE clk"
  by (auto simp: fare_where_def split: option.splits)

lemma get_current_fare_greatest:
  "(if \<exists>f \<in> set (fares d). fare_where clk s t f
    then \<exists>f \<in> set (fares d). \<exists>ef.
           fare_where clk s t f \<and> fr_EffectiveFrom f = Some ef \<and> ef \<le> CURRENT_DATE clk
         \<and> (\<forall>g \<in> set (fares d). \<forall>eg.
               fare_where clk s t g \<and> fr_EffectiveFrom g = Some eg \<longrightarrow> eg \<le> ef)
         \<and> get_current_fare clk s t d = fr_FareAmount f
    else get_current_fare clk s t d = 0)"
proof (cases "order_by_EffectiveFrom_desc_limit_1 (filter (fare_where clk s t) (fares d))")
  case None
  then have "filter (fare_where clk s t) (fares d) = []" by (simp add: limit_1_None)
  then have "\<not> (\<exists>f \<in> set (fares d). fare_where clk s t f)" by (simp add: filter_empty_conv)
  with None show ?thesis by (simp add: get_current_fare_def)
next
  case (Some f)
  from limit_1_greatest [OF Some]
  have fin: "f \<in> set (fares d)" and fw: "fare_where clk s t f"
    and mx: "\<forall>g \<in> set (fares d). fare_where clk s t g \<longrightarrow>
               \<not> date_less (fr_EffectiveFrom f) (fr_EffectiveFrom g)"
    by auto
  from fare_where_from [OF fw] obtain ef
    where ef: "fr_EffectiveFrom f = Some ef" "ef \<le> CURRENT_DATE clk"
    by blast
  have "eg \<le> ef"
    if "g \<in> set (fares d)" "fare_where clk s t g" "fr_EffectiveFrom g = Some eg" for g eg
    using mx that ef by fastforce
  with fin fw ef Some show ?thesis
    by (auto simp: get_current_fare_def)
qed

lemma get_current_fare_unique:
  assumes uq: "distinct (map (\<lambda>f. (fr_SourceStationID f, fr_DestinationStationID f, fr_EffectiveFrom f)) (fares d))"
    and g: "g \<in> set (fares d)" "fare_where clk s t g" "fr_EffectiveFrom g = Some eg"
    and mx: "\<forall>h \<in> set (fares d). \<forall>eh. fare_where clk s t h \<and> fr_EffectiveFrom h = Some eh \<longrightarrow> eh \<le> eg"
  shows "get_current_fare clk s t d = fr_FareAmount g"
proof (cases "order_by_EffectiveFrom_desc_limit_1 (filter (fare_where clk s t) (fares d))")
  case None
  then have "filter (fare_where clk s t) (fares d) = []" by (simp add: limit_1_None)
  with g have False by (simp add: filter_empty_conv)
  then show ?thesis ..
next
  case (Some f)
  from limit_1_greatest [OF Some]
  have fin: "f \<in> set (fares d)" and fw: "fare_where clk s t f"
    and fm: "\<forall>h \<in> set (fares d). fare_where clk s t h \<longrightarrow>
               \<not> date_less (fr_EffectiveFrom f) (fr_EffectiveFrom h)"
    by auto
  from fare_where_from [OF fw] obtain ef where ef: "fr_EffectiveFrom f = Some ef" by blast
  from fm g(1,2) have "\<not> date_less (fr_EffectiveFrom f) (fr_EffectiveFrom g)" by blast
  with ef g(3) have 1: "eg \<le> ef" by simp
  from mx fin fw ef have 2: "ef \<le> eg" by blast
  from 1 2 ef g(3) have k1: "fr_EffectiveFrom f = fr_EffectiveFrom g" by simp
  from fw g(2) have k2: "fr_SourceStationID f = fr_SourceStationID g"
    and k3: "fr_DestinationStationID f = fr_DestinationStationID g"
    by (simp_all add: fare_where_def)
  let ?key = "\<lambda>f. (fr_SourceStationID f, fr_DestinationStationID f, fr_EffectiveFrom f)"
  from uq have "inj_on ?key (set (fares d))" by (simp add: distinct_map)
  moreover from k1 k2 k3 have "?key f = ?key g" by simp
  ultimately have "f = g" using fin g(1) by (rule inj_onD)
  with Some show ?thesis by (simp add: get_current_fare_def)
qed

text \<open>
  The \<open>WHERE\<close> clause of \<open>get_current_fare\<close>, row by row: a row passes exactly when it is
  for the route in its direction, its \<open>EffectiveFrom\<close> is a date on or before
  \<open>CURRENT_DATE\<close>, and its \<open>EffectiveUntil\<close> is \<open>NULL\<close> or a date after \<open>CURRENT_DATE\<close>.
\<close>

lemma fare_where_iff:
  "fare_where clk s t f \<longleftrightarrow>
     fr_SourceStationID f = s \<and> fr_DestinationStationID f = t
   \<and> (\<exists>ef. fr_EffectiveFrom f = Some ef \<and> ef \<le> CURRENT_DATE clk)
   \<and> (fr_EffectiveUntil f = None
        \<or> (\<exists>eu. fr_EffectiveUntil f = Some eu \<and> CURRENT_DATE clk < eu))"
  by (auto simp: fare_where_def split: option.splits)

text \<open>
  Claim C5. Fix a source station \<open>s\<close>, a destination station \<open>t\<close> and the clock. Call a
  row of \<open>Fare\<close> a candidate when its \<open>SourceStationID\<close> is \<open>s\<close> and its
  \<open>DestinationStationID\<close> is \<open>t\<close> (in that order), its \<open>EffectiveFrom\<close> is a date on or
  before \<open>CURRENT_DATE\<close>, and its \<open>EffectiveUntil\<close> is \<open>NULL\<close> or a date after
  \<open>CURRENT_DATE\<close>. If some row is a candidate, \<open>get_current_fare\<close> returns the
  \<open>FareAmount\<close> of a candidate whose \<open>EffectiveFrom\<close> is the most recent among all
  candidates; if none is, it returns zero. And when the table satisfies
  \<open>uq_fare_route\<close>, the result is the \<open>FareAmount\<close> of every candidate whose
  \<open>EffectiveFrom\<close> is the most recent: there is one such row. The conditions are
  written on the columns of the row, not through \<open>fare_where\<close>.
\<close>

theorem get_current_fare_most_recent:
  "(if \<exists>f \<in> set (fares d).
         fr_SourceStationID f = s \<and> fr_DestinationStationID f = t
       \<and> (\<exists>ef. fr_EffectiveFrom f = Some ef \<and> ef \<le> CURRENT_DATE clk)
       \<and> (fr_EffectiveUntil f = None
            \<or> (\<exists>eu. fr_EffectiveUntil f = Some eu \<and> CURRENT_DATE clk < eu))
    then \<exists>f \<in> set (fares d). \<exists>ef.
           fr_SourceStationID f = s \<and> fr_DestinationStationID f = t
         \<and> fr_EffectiveFrom f = Some ef \<and> ef \<le> CURRENT_DATE clk
         \<and> (fr_EffectiveUntil f = None
              \<or> (\<exists>eu. fr_EffectiveUntil f = Some eu \<and> CURRENT_DATE clk < eu))
         \<and> (\<forall>g \<in> set (fares d). \<forall>eg.
               fr_SourceStationID g = s \<and> fr_DestinationStationID g = t
             \<and> fr_EffectiveFrom g = Some eg \<and> eg \<le> CURRENT_DATE clk
             \<and> (fr_EffectiveUntil g = None
                  \<or> (\<exists>eu. fr_EffectiveUntil g = Some eu \<and> CURRENT_DATE clk < eu))
             \<longrightarrow> eg \<le> ef)
         \<and> get_current_fare clk s t d = fr_FareAmount f
    else get_current_fare clk s t d = 0)
   \<and> (distinct (map (\<lambda>f. (fr_SourceStationID f, fr_DestinationStationID f, fr_EffectiveFrom f))
                   (fares d))
        \<and> g \<in> set (fares d)
        \<and> fr_SourceStationID g = s \<and> fr_DestinationStationID g = t
        \<and> fr_EffectiveFrom g = Some eg \<and> eg \<le> CURRENT_DATE clk
        \<and> (fr_EffectiveUntil g = None
             \<or> (\<exists>eu. fr_EffectiveUntil g = Some eu \<and> CURRENT_DATE clk < eu))
        \<and> (\<forall>h \<in> set (fares d). \<forall>eh.
              fr_SourceStationID h = s \<and> fr_DestinationStationID h = t
            \<and> fr_EffectiveFrom h = Some eh \<and> eh \<le> CURRENT_DATE clk
            \<and> (fr_EffectiveUntil h = None
                 \<or> (\<exists>eu. fr_EffectiveUntil h = Some eu \<and> CURRENT_DATE clk < eu))
            \<longrightarrow> eh \<le> eg)
      \<longrightarrow> get_current_fare clk s t d = fr_FareAmount g)"
proof (intro conjI impI)
  let ?cand = "\<lambda>f. fr_SourceStationID f = s \<and> fr_DestinationStationID f = t
       \<and> (\<exists>ef. fr_EffectiveFrom f = Some ef \<and> ef \<le> CURRENT_DATE clk)
       \<and> (fr_EffectiveUntil f = None
            \<or> (\<exists>eu. fr_EffectiveUntil f = Some eu \<and> CURRENT_DATE clk < eu))"
  have c: "fare_where clk s t f = ?cand f" for f by (rule fare_where_iff)
  show "if \<exists>f \<in> set (fares d). ?cand f
    then \<exists>f \<in> set (fares d). \<exists>ef.
           fr_SourceStationID f = s \<and> fr_DestinationStationID f = t
         \<and> fr_EffectiveFrom f = Some ef \<and> ef \<le> CURRENT_DATE clk
         \<and> (fr_EffectiveUntil f = None
              \<or> (\<exists>eu. fr_EffectiveUntil f = Some eu \<and> CURRENT_DATE clk < eu))
         \<and> (\<forall>g \<in> set (fares d). \<forall>eg.
               fr_SourceStationID g = s \<and> fr_DestinationStationID g = t
             \<and> fr_EffectiveFrom g = Some eg \<and> eg \<le> CURRENT_DATE clk
             \<and> (fr_EffectiveUntil g = None
                  \<or> (\<exists>eu. fr_EffectiveUntil g = Some eu \<and> CURRENT_DATE clk < eu))
             \<longrightarrow> eg \<le> ef)
         \<and> get_current_fare clk s t d = fr_FareAmount f
    else get_current_fare clk s t d = 0"
  proof (cases "\<exists>f \<in> set (fares d). ?cand f")
    case False
    then have "\<not> (\<exists>f \<in> set (fares d). fare_where clk s t f)" by (simp add: c)
    with get_current_fare_greatest [of d clk s t]
    have "get_current_fare clk s t d = 0" by (simp only: if_False)
    with False show ?thesis by (simp only: if_False)
  next
    case True
    then have "\<exists>f \<in> set (fares d). fare_where clk s t f" by (simp add: c)
    with get_current_fare_greatest [of d clk s t] obtain f ef where
      f: "f \<in> set (fares d)" "fare_where clk s t f" "fr_EffectiveFrom f = Some ef"
         "ef \<le> CURRENT_DATE clk"
      and mx: "\<forall>g \<in> set (fares d). \<forall>eg.
                 fare_where clk s t g \<and> fr_EffectiveFrom g = Some eg \<longrightarrow> eg \<le> ef"
      and r: "get_current_fare clk s t d = fr_FareAmount f"
      by auto
    from f(2) have fc: "?cand f" by (simp add: c)
    have "eg \<le> ef"
      if "g \<in> set (fares d)" "fr_SourceStationID g = s" "fr_DestinationStationID g = t"
         "fr_EffectiveFrom g = Some eg" "eg \<le> CURRENT_DATE clk"
         "fr_EffectiveUntil g = None \<or> (\<exists>eu. fr_EffectiveUntil g = Some eu \<and> CURRENT_DATE clk < eu)"
      for g eg
    proof -
      from that have "fare_where clk s t g" by (simp add: c)
      with mx that(1,4) show ?thesis by blast
    qed
    with True f fc r show ?thesis by (simp only: if_True) blast
  qed
next
  assume a: "distinct (map (\<lambda>f. (fr_SourceStationID f, fr_DestinationStationID f, fr_EffectiveFrom f))
                   (fares d))
        \<and> g \<in> set (fares d)
        \<and> fr_SourceStationID g = s \<and> fr_DestinationStationID g = t
        \<and> fr_EffectiveFrom g = Some eg \<and> eg \<le> CURRENT_DATE clk
        \<and> (fr_EffectiveUntil g = None
             \<or> (\<exists>eu. fr_EffectiveUntil g = Some eu \<and> CURRENT_DATE clk < eu))
        \<and> (\<forall>h \<in> set (fares d). \<forall>eh.
              fr_SourceStationID h = s \<and> fr_DestinationStationID h = t
            \<and> fr_EffectiveFrom h = Some eh \<and> eh \<le> CURRENT_DATE clk
            \<and> (fr_EffectiveUntil h = None
                 \<or> (\<exists>eu. fr_EffectiveUntil h = Some eu \<and> CURRENT_DATE clk < eu))
            \<longrightarrow> eh \<le> eg)"
  then have u: "distinct (map (\<lambda>f. (fr_SourceStationID f, fr_DestinationStationID f, fr_EffectiveFrom f))
                   (fares d))"
    and g: "g \<in> set (fares d)" "fr_EffectiveFrom g = Some eg" by simp_all
  from a have gw: "fare_where clk s t g" by (simp add: fare_where_iff)
  have mx: "\<forall>h \<in> set (fares d). \<forall>eh.
              fare_where clk s t h \<and> fr_EffectiveFrom h = Some eh \<longrightarrow> eh \<le> eg"
  proof (intro ballI allI impI)
    fix h eh
    assume h: "h \<in> set (fares d)" "fare_where clk s t h \<and> fr_EffectiveFrom h = Some eh"
    then have "fr_SourceStationID h = s \<and> fr_DestinationStationID h = t
            \<and> fr_EffectiveFrom h = Some eh \<and> eh \<le> CURRENT_DATE clk
            \<and> (fr_EffectiveUntil h = None
                 \<or> (\<exists>eu. fr_EffectiveUntil h = Some eu \<and> CURRENT_DATE clk < eu))"
      by (auto simp: fare_where_iff)
    with a h(1) show "eh \<le> eg" by blast
  qed
  from get_current_fare_unique [OF u g(1) gw g(2) mx]
  show "get_current_fare clk s t d = fr_FareAmount g" .
qed

text \<open>
  On \<open>db_fares_ex\<close> at day 10: from station 1 to station 2 the result is 30.00, the row
  that started on day 5, although the row of 35.00 started later (day 7): that one ended
  on day 9. The row of 40.00 starts on day 20. From station 2 to station 1 the result is
  25.00, the row of the other direction, and from station 1 to station 3 it is zero.
\<close>

theorem get_current_fare_most_recent_witness:
  "get_current_fare clk_ex 1 2 db_fares_ex = 3000
   \<and> get_current_fare clk_ex 2 1 db_fares_ex = 2500
   \<and> get_current_fare clk_ex 1 3 db_fares_ex = 0
   \<and> distinct (map (\<lambda>f. (fr_SourceStationID f, fr_DestinationStationID f, fr_EffectiveFrom f))
                  (fares db_fares_ex))
   \<and> \<lparr>fr_FareID = 2, fr_SourceStationID = 1, fr_DestinationStationID = 2,
        fr_FareAmount = 3000, fr_EffectiveFrom = Some 5, fr_EffectiveUntil = None\<rparr>
       \<in> set (fares db_fares_ex)
   \<and> \<lparr>fr_FareID = 4, fr_SourceStationID = 1, fr_DestinationStationID = 2,
        fr_FareAmount = 3500, fr_EffectiveFrom = Some 7, fr_EffectiveUntil = Some 9\<rparr>
       \<in> set (fares db_fares_ex)
   \<and> (5::int) \<le> CURRENT_DATE clk_ex \<and> (7::int) \<le> CURRENT_DATE clk_ex
   \<and> \<not> CURRENT_DATE clk_ex < (9::int)"
proof -
  let ?g = "\<lparr>fr_FareID = 2, fr_SourceStationID = 1, fr_DestinationStationID = 2,
             fr_FareAmount = 3000, fr_EffectiveFrom = Some 5, fr_EffectiveUntil = None\<rparr>"
  have u: "distinct (map (\<lambda>f. (fr_SourceStationID f, fr_DestinationStationID f, fr_EffectiveFrom f))
                  (fares db_fares_ex))"
    by (simp add: db_fares_ex_def db_ex_def)
  have g: "?g \<in> set (fares db_fares_ex)
           \<and> fr_SourceStationID ?g = 1 \<and> fr_DestinationStationID ?g = 2
           \<and> fr_EffectiveFrom ?g = Some 5 \<and> 5 \<le> CURRENT_DATE clk_ex
           \<and> (fr_EffectiveUntil ?g = None
                \<or> (\<exists>eu. fr_EffectiveUntil ?g = Some eu \<and> CURRENT_DATE clk_ex < eu))"
    by (simp add: db_fares_ex_def db_ex_def clk_ex_def)
  have m: "\<forall>h \<in> set (fares db_fares_ex). \<forall>eh.
              fr_SourceStationID h = 1 \<and> fr_DestinationStationID h = 2
            \<and> fr_EffectiveFrom h = Some eh \<and> eh \<le> CURRENT_DATE clk_ex
            \<and> (fr_EffectiveUntil h = None
                 \<or> (\<exists>eu. fr_EffectiveUntil h = Some eu \<and> CURRENT_DATE clk_ex < eu))
            \<longrightarrow> eh \<le> 5"
    by (simp add: db_fares_ex_def db_ex_def clk_ex_def)
  have n: "\<not> (\<exists>f \<in> set (fares db_fares_ex).
         fr_SourceStationID f = 1 \<and> fr_DestinationStationID f = 3
       \<and> (\<exists>ef. fr_EffectiveFrom f = Some ef \<and> ef \<le> CURRENT_DATE clk_ex)
       \<and> (fr_EffectiveUntil f = None
            \<or> (\<exists>eu. fr_EffectiveUntil f = Some eu \<and> CURRENT_DATE clk_ex < eu)))"
    by (simp add: db_fares_ex_def db_ex_def clk_ex_def)
  have r: "get_current_fare clk_ex 2 1 db_fares_ex = 2500"
    by (simp add: db_fares_ex_def db_ex_def clk_ex_def get_current_fare_def fare_where_def)
  have x: "\<lparr>fr_FareID = 4, fr_SourceStationID = 1, fr_DestinationStationID = 2,
        fr_FareAmount = 3500, fr_EffectiveFrom = Some 7, fr_EffectiveUntil = Some 9\<rparr>
       \<in> set (fares db_fares_ex)
     \<and> (7::int) \<le> CURRENT_DATE clk_ex \<and> \<not> CURRENT_DATE clk_ex < (9::int)"
    by (simp add: db_fares_ex_def db_ex_def clk_ex_def)
  from get_current_fare_most_recent [of db_fares_ex 1 2 clk_ex ?g 5] u g m
  have a: "get_current_fare clk_ex 1 2 db_fares_ex = fr_FareAmount ?g" by blast
  from get_current_fare_most_recent [of db_fares_ex 1 3 clk_ex ?g 5] n
  have b: "get_current_fare clk_ex 1 3 db_fares_ex = 0" by (simp only: if_False)
  from a b r u g x show ?thesis by simp
qed

section \<open>Effects of the statements\<close>

lemma update_smartcard_Inr:
  assumes "update_smartcard cid upd d = Inr d'"
  shows "d' = d\<lparr>smartcards := map (\<lambda>c. if sc_CardID c = cid then upd c else c) (smartcards d)\<rparr>"
    and "\<forall>c \<in> set (smartcards d). sc_CardID c = cid \<longrightarrow> 0 \<le> sc_Balance (upd c) \<and> sc_Balance (upd c) \<le> 1000000"
  using assms by (auto simp: update_smartcard_def Let_def split: if_splits)

lemma complete_journey_fare_Inr:
  assumes "complete_journey_fare clk OLD NEW d = Inr (N, d')"
  shows "(N = NEW \<and> d' = d) \<or>
         (\<exists>ex cid c. jn_ExitStationID NEW = Some ex \<and> jn_CardID NEW = Some cid
            \<and> jn_Status NEW = Completed \<and> jn_Status OLD \<noteq> Completed
            \<and> 0 < get_current_fare clk (jn_EntryStationID NEW) ex d
            \<and> find (\<lambda>c. sc_CardID c = cid) (smartcards d) = Some c
            \<and> get_current_fare clk (jn_EntryStationID NEW) ex d \<le> sc_Balance c
            \<and> update_smartcard cid
                 (\<lambda>c. c\<lparr>sc_Balance := sc_Balance c - get_current_fare clk (jn_EntryStationID NEW) ex d\<rparr>) d = Inr d'
            \<and> N = NEW\<lparr>jn_FareDeducted := Some (get_current_fare clk (jn_EntryStationID NEW) ex d)\<rparr>)"
  using assms
  by (auto simp: complete_journey_fare_def Let_def split: option.splits if_splits sum.splits)

lemma complete_journey_fare_frame:
  assumes "complete_journey_fare clk OLD NEW d = Inr (N, d')"
  shows "journeys d' = journeys d" "tickets d' = tickets d" "stations d' = stations d"
    "fares d' = fares d" "bookings d' = bookings d"
    "jn_JourneyID N = jn_JourneyID NEW" "jn_Status N = jn_Status NEW"
    "jn_CardID N = jn_CardID NEW" "jn_TicketID N = jn_TicketID NEW"
    "jn_EntryStationID N = jn_EntryStationID NEW" "jn_ExitStationID N = jn_ExitStationID NEW"
  using complete_journey_fare_Inr [OF assms]
  by (auto dest!: update_smartcard_Inr(1))

lemma complete_journey_Inr:
  assumes "complete_journey clk jid sid d = Inr (fd, d')"
  shows "\<exists>OLD NEW d1. find (\<lambda>j. jn_JourneyID j = jid) (journeys d) = Some OLD
          \<and> jn_Status OLD = Active
          \<and> complete_journey_fare clk OLD
               (OLD\<lparr>jn_ExitStationID := Some sid,
                     jn_ExitTime := Some (CURRENT_TIMESTAMP clk + 1000000),
                     jn_Status := Completed\<rparr>) d = Inr (NEW, d1)
          \<and> chk_journey NEW = None \<and> fk_journey d1 NEW = None
          \<and> fd = jn_FareDeducted NEW
          \<and> d' = d1\<lparr>journeys := map (\<lambda>j. if jn_JourneyID j = jid then NEW else j) (journeys d1)\<rparr>"
  using assms
  by (auto simp: complete_journey_def update_journey_def split: option.splits if_splits sum.splits prod.splits dest!: find_SomeD)

lemma complete_journey_journeys:
  assumes "complete_journey clk jid sid d = Inr (fd, d')"
  shows "\<exists>OLD NEW. find (\<lambda>j. jn_JourneyID j = jid) (journeys d) = Some OLD
          \<and> jn_Status OLD = Active \<and> jn_Status NEW = Completed \<and> jn_JourneyID NEW = jid
          \<and> jn_CardID NEW = jn_CardID OLD \<and> jn_TicketID NEW = jn_TicketID OLD
          \<and> jn_EntryStationID NEW = jn_EntryStationID OLD
          \<and> jn_ExitStationID NEW = Some sid \<and> jn_FareDeducted NEW = fd
          \<and> journeys d' = map (\<lambda>j. if jn_JourneyID j = jid then NEW else j) (journeys d)"
proof -
  from complete_journey_Inr [OF assms] obtain OLD NEW d1 where
    f: "find (\<lambda>j. jn_JourneyID j = jid) (journeys d) = Some OLD" and a: "jn_Status OLD = Active"
    and c: "complete_journey_fare clk OLD
               (OLD\<lparr>jn_ExitStationID := Some sid,
                     jn_ExitTime := Some (CURRENT_TIMESTAMP clk + 1000000),
                     jn_Status := Completed\<rparr>) d = Inr (NEW, d1)"
    and fd: "fd = jn_FareDeducted NEW"
    and d': "d' = d1\<lparr>journeys := map (\<lambda>j. if jn_JourneyID j = jid then NEW else j) (journeys d1)\<rparr>"
    by blast
  from find_SomeD [OF f] have id: "jn_JourneyID OLD = jid" by simp
  from complete_journey_fare_frame [OF c] f a fd d' id show ?thesis
    by (intro exI [of _ OLD] exI [of _ NEW]) simp
qed

lemma complete_journey_frame:
  assumes "complete_journey clk jid sid d = Inr (fd, d')"
  shows "tickets d' = tickets d" "stations d' = stations d" "fares d' = fares d" "bookings d' = bookings d"
proof -
  from complete_journey_Inr [OF assms] obtain OLD NEW d1 where
    c: "complete_journey_fare clk OLD
               (OLD\<lparr>jn_ExitStationID := Some sid,
                     jn_ExitTime := Some (CURRENT_TIMESTAMP clk + 1000000),
                     jn_Status := Completed\<rparr>) d = Inr (NEW, d1)"
    and d': "d' = d1\<lparr>journeys := map (\<lambda>j. if jn_JourneyID j = jid then NEW else j) (journeys d1)\<rparr>"
    by blast
  from complete_journey_fare_frame [OF c] d'
  show "tickets d' = tickets d" "stations d' = stations d" "fares d' = fares d" "bookings d' = bookings d"
    by simp_all
qed

lemma start_journey_Inr:
  assumes "start_journey clk ty sid tid cid d = Inr (jid, d')"
  shows "\<exists>NEW. NEW = \<lparr>jn_JourneyID = fresh (map jn_JourneyID (journeys d)), jn_JourneyType = ty,
                        jn_TicketID = tid, jn_CardID = cid, jn_EntryStationID = sid,
                        jn_EntryTime = CURRENT_TIMESTAMP clk,
                        jn_ExitStationID = None, jn_ExitTime = None,
                        jn_FareDeducted = None, jn_Status = Active\<rparr>
          \<and> jid = jn_JourneyID NEW
          \<and> insert_journey clk NEW d = Inr d'"
  using assms
  by (auto simp: start_journey_def Let_def split: option.splits if_splits sum.splits journey_type.splits)

lemma insert_journey_Inr:
  assumes "insert_journey clk NEW d = Inr d'"
  shows "journeys d' = journeys d @ [NEW]"
    and "tickets d' = tickets (mark_ticket_used NEW d)"
    and "stations d' = stations d" and "fares d' = fares d" and "bookings d' = bookings d"
    and "update_card_last_used clk NEW (mark_ticket_used NEW (d\<lparr>journeys := journeys d @ [NEW]\<rparr>)) = Inr d'"
  using assms
  by (auto simp: insert_journey_def update_card_last_used_def mark_ticket_used_def
           split: option.splits dest!: update_smartcard_Inr(1))

section \<open>Outcomes of the handlers\<close>

lemma errorHandler_Error: "\<exists>code msg. errorHandler e = Error code msg"
  by (cases e) (simp_all add: errorHandler_def)

lemma journeyEntry_cases:
  assumes "journeyEntry clk mediaType mediaId stationId d = (r, d')"
  shows "(d' = d \<and> (\<exists>code msg. r = Error code msg))
       \<or> (\<exists>jid. r = EntryPermitted jid \<and> mediaType = ''Ticket''
             \<and> select_active_journey_of_ticket mediaId d = []
             \<and> start_journey clk Ticket stationId (Some mediaId) None d = Inr (jid, d'))
       \<or> (\<exists>jid. r = EntryPermitted jid \<and> mediaType = ''Card''
             \<and> select_active_journey_of_card mediaId d = []
             \<and> start_journey clk Card stationId None (Some mediaId) d = Inr (jid, d'))"
  using assms errorHandler_Error
  by (auto simp: journeyEntry_def split: option.splits if_splits list.splits sum.splits prod.splits)

lemma journeyExit_cases:
  assumes "journeyExit clk mediaType mediaId stationId d = (r, d')"
  shows "(d' = d \<and> (\<exists>code msg. r = Error code msg))
       \<or> (\<exists>j b rest fd. mediaType = ''Ticket''
             \<and> select_active_journey_with_booking mediaId d = (j, b) # rest
             \<and> complete_journey clk (jn_JourneyID j) stationId d = Inr (fd, d')
             \<and> r = ExitPermitted (jn_JourneyID j) (Num (bk_TotalFare b)) None
                    (stationId \<noteq> bk_DestinationStationID b))
       \<or> (\<exists>j rest c fd. mediaType = ''Card''
             \<and> select_active_journey_of_card mediaId d = j # rest
             \<and> find (\<lambda>c. sc_CardID c = mediaId) (smartcards d) = Some c
             \<and> \<not> sc_Balance c < get_current_fare clk (jn_EntryStationID j) stationId d
             \<and> complete_journey clk (jn_JourneyID j) stationId d = Inr (fd, d')
             \<and> r = ExitPermitted (jn_JourneyID j) (parseFloat fd)
                    (Some (js_minus (Num (sc_Balance c)) (parseFloat fd))) False)"
  using assms errorHandler_Error
  by (auto simp: journeyExit_def Let_def split: option.splits if_splits list.splits sum.splits prod.splits)

section \<open>Tables a statement leaves alone\<close>

lemma insert_transaction_frame:
  assumes "insert_transaction u a ty d = Inr (x, d')"
  shows "journeys d' = journeys d
    \<and> tickets d' = tickets d
    \<and> smartcards d' = smartcards d
    \<and> stations d' = stations d
    \<and> fares d' = fares d
    \<and> bookings d' = bookings d"
  using assms by (auto simp: insert_transaction_def Let_def split: if_splits)

lemma insert_payment_frame:
  assumes "insert_payment t m s d = Inr (x, d')"
  shows "journeys d' = journeys d
    \<and> tickets d' = tickets d
    \<and> smartcards d' = smartcards d
    \<and> stations d' = stations d
    \<and> fares d' = fares d
    \<and> bookings d' = bookings d"
  using assms by (auto simp: insert_payment_def Let_def split: if_splits)

lemma insert_booking_frame:
  assumes "insert_booking clk t s1 s2 f d = Inr (x, d')"
  shows "journeys d' = journeys d
    \<and> tickets d' = tickets d
    \<and> smartcards d' = smartcards d
    \<and> stations d' = stations d
    \<and> fares d' = fares d"
  using assms by (auto simp: insert_booking_def Let_def split: if_splits option.splits)

lemma insert_ticket_Inr:
  assumes "insert_ticket b vf vu d = Inr (x, d')"
  shows "journeys d' = journeys d" "smartcards d' = smartcards d"
    "stations d' = stations d" "fares d' = fares d" "bookings d' = bookings d"
    "tickets d' = tickets d @ [\<lparr>tk_TicketID = fresh (map tk_TicketID (tickets d)), tk_BookingID = b,
               tk_ValidFrom = vf, tk_ValidUntil = vu, tk_IsUsed = False, tk_UsedAt = None\<rparr>]"
  using assms by (auto simp: insert_ticket_def Let_def split: if_splits)

lemma insert_smartcard_Inr:
  assumes "insert_smartcard u b a d = Inr (c, d')"
  shows "journeys d' = journeys d" "tickets d' = tickets d"
    "stations d' = stations d" "fares d' = fares d" "bookings d' = bookings d"
    "smartcards d' = smartcards d @ [c]" "sc_Balance c = b" "0 \<le> b" "b \<le> 1000000"
  using assms by (auto simp: insert_smartcard_def Let_def split: if_splits)

lemma update_smartcard_frame:
  assumes "update_smartcard cid upd d = Inr d'"
  shows "journeys d' = journeys d" "tickets d' = tickets d"
    "stations d' = stations d" "fares d' = fares d" "bookings d' = bookings d"
  using update_smartcard_Inr(1) [OF assms] by simp_all

lemma insert_recharge_frame:
  assumes "insert_recharge clk t cid d = Inr (x, d')"
  shows "journeys d' = journeys d
    \<and> tickets d' = tickets d
    \<and> stations d' = stations d
    \<and> fares d' = fares d
    \<and> bookings d' = bookings d"
  using assms
  by (auto simp: insert_recharge_def process_card_recharge_def Let_def
           split: if_splits option.splits sum.splits dest!: update_smartcard_Inr(1))

lemma create_ticket_booking_Inr:
  assumes "create_ticket_booking clk u s1 s2 m h d = Inr (x, d')"
  shows "journeys d' = journeys d" "smartcards d' = smartcards d"
    "stations d' = stations d" "fares d' = fares d"
    "\<exists>t. tickets d' = tickets d @ [t] \<and> tk_IsUsed t = False
        \<and> tk_TicketID t = fresh (map tk_TicketID (tickets d))"
proof -
  from assms obtain v1 d1 v2 d2 v3 d3 where
    1: "insert_transaction u (get_current_fare clk s1 s2 d) Booking d = Inr (v1, d1)" and
    2: "insert_booking clk v1 s1 s2 (get_current_fare clk s1 s2 d) d1 = Inr (v2, d2)" and
    3: "insert_payment v1 m Success d2 = Inr (v3, d3)" and
    4: "insert_ticket v2 (CURRENT_TIMESTAMP clk) (CURRENT_TIMESTAMP clk + h * 3600000000) d3 = Inr (x, d')"
    by (auto simp: create_ticket_booking_def Let_def split: if_splits sum.splits prod.splits)
  note f = insert_transaction_frame [OF 1] insert_booking_frame [OF 2] insert_payment_frame [OF 3]
    insert_ticket_Inr [OF 4]
  from f show "journeys d' = journeys d" "smartcards d' = smartcards d"
    "stations d' = stations d" "fares d' = fares d" by simp_all
  from f show "\<exists>t. tickets d' = tickets d @ [t] \<and> tk_IsUsed t = False
        \<and> tk_TicketID t = fresh (map tk_TicketID (tickets d))" by simp
qed

lemma recharge_smart_card_Inr:
  assumes "recharge_smart_card clk u cid a m d = Inr (x, d')"
  shows "journeys d' = journeys d" "tickets d' = tickets d"
    "stations d' = stations d" "fares d' = fares d"
proof -
  from assms obtain v1 d1 v2 d2 v3 where
    1: "insert_transaction u a Recharge d = Inr (v1, d1)" and
    2: "insert_recharge clk v1 cid d1 = Inr (v2, d2)" and
    3: "insert_payment v1 m Success d2 = Inr (v3, d')"
    by (auto simp: recharge_smart_card_def Let_def split: if_splits sum.splits prod.splits)
  note f = insert_transaction_frame [OF 1] insert_recharge_frame [OF 2] insert_payment_frame [OF 3]
  from f show "journeys d' = journeys d" "tickets d' = tickets d"
    "stations d' = stations d" "fares d' = fares d" by simp_all
qed

lemma rechargeCard_frame:
  "journeys (snd (rechargeCard clk u a m d)) = journeys d"
  "tickets (snd (rechargeCard clk u a m d)) = tickets d"
  "stations (snd (rechargeCard clk u a m d)) = stations d"
  "fares (snd (rechargeCard clk u a m d)) = fares d"
  by (auto simp: rechargeCard_def split: list.splits sum.splits dest: recharge_smart_card_Inr)

lemma registerCard_frame:
  "journeys (snd (registerCard clk u m d)) = journeys d"
  "tickets (snd (registerCard clk u m d)) = tickets d"
  "stations (snd (registerCard clk u m d)) = stations d"
  "fares (snd (registerCard clk u m d)) = fares d"
  by (auto simp: registerCard_def split: list.splits sum.splits
           dest!: insert_transaction_frame insert_payment_frame
           dest: insert_smartcard_Inr(1) insert_smartcard_Inr(2) insert_smartcard_Inr(3) insert_smartcard_Inr(4))

lemma bookTicket_frame:
  "journeys (snd (bookTicket clk u s1 s2 m d)) = journeys d"
  "smartcards (snd (bookTicket clk u s1 s2 m d)) = smartcards d"
  "stations (snd (bookTicket clk u s1 s2 m d)) = stations d"
  "fares (snd (bookTicket clk u s1 s2 m d)) = fares d"
  by (auto simp: bookTicket_def split: sum.splits
           dest: create_ticket_booking_Inr(1) create_ticket_booking_Inr(2)
                 create_ticket_booking_Inr(3) create_ticket_booking_Inr(4))

lemma bookTicket_tickets:
  "tickets (snd (bookTicket clk u s1 s2 m d)) = tickets d
   \<or> (\<exists>t. tickets (snd (bookTicket clk u s1 s2 m d)) = tickets d @ [t] \<and> \<not> tk_IsUsed t
          \<and> tk_TicketID t = fresh (map tk_TicketID (tickets d)))"
proof (cases "s1 = s2")
  case True
  then show ?thesis by (simp add: bookTicket_def)
next
  case False
  show ?thesis
  proof (cases "create_ticket_booking clk u s1 s2 m 24 d")
    case (Inl e)
    with False show ?thesis by (simp add: bookTicket_def)
  next
    case (Inr p)
    obtain x d' where p: "p = (x, d')" by (cases p)
    with Inr have c: "create_ticket_booking clk u s1 s2 m 24 d = Inr (x, d')" by simp
    from False c have "snd (bookTicket clk u s1 s2 m d) = d'" by (simp add: bookTicket_def)
    with create_ticket_booking_Inr(5) [OF c] show ?thesis by simp
  qed
qed

section \<open>What a request does to the journey table\<close>

lemma start_journey_journeys:
  assumes "start_journey clk ty sid tid cid d = Inr (jid, d')"
  shows "journeys d' = journeys d @
           [\<lparr>jn_JourneyID = jid, jn_JourneyType = ty, jn_TicketID = tid, jn_CardID = cid,
             jn_EntryStationID = sid, jn_EntryTime = CURRENT_TIMESTAMP clk,
             jn_ExitStationID = None, jn_ExitTime = None,
             jn_FareDeducted = None, jn_Status = Active\<rparr>]
         \<and> jid = fresh (map jn_JourneyID (journeys d))
         \<and> ((ty = Ticket \<and> tid \<noteq> None \<and> cid = None) \<or> (ty = Card \<and> cid \<noteq> None \<and> tid = None))"
proof -
  from start_journey_Inr [OF assms] obtain NEW where
    n: "NEW = \<lparr>jn_JourneyID = fresh (map jn_JourneyID (journeys d)), jn_JourneyType = ty,
                        jn_TicketID = tid, jn_CardID = cid, jn_EntryStationID = sid,
                        jn_EntryTime = CURRENT_TIMESTAMP clk,
                        jn_ExitStationID = None, jn_ExitTime = None,
                        jn_FareDeducted = None, jn_Status = Active\<rparr>"
    and j: "jid = jn_JourneyID NEW" and i: "insert_journey clk NEW d = Inr d'"
    by blast
  from i have "chk_journey NEW = None"
    by (auto simp: insert_journey_def split: option.splits)
  with n have "(ty = Ticket \<and> tid \<noteq> None \<and> cid = None) \<or> (ty = Card \<and> cid \<noteq> None \<and> tid = None)"
    by (auto simp: chk_journey_def split: if_splits)
  with insert_journey_Inr(1) [OF i] n j show ?thesis by simp
qed

lemma handle_journeys:
  "journeys (snd (handle clk r d)) = journeys d
   \<or> (\<exists>NEW m. journeys (snd (handle clk r d)) = journeys d @ [NEW] \<and> jn_Status NEW = Active
         \<and> jn_JourneyID NEW = fresh (map jn_JourneyID (journeys d))
         \<and> ((jn_TicketID NEW = Some m \<and> jn_CardID NEW = None
               \<and> select_active_journey_of_ticket m d = [])
           \<or> (jn_CardID NEW = Some m \<and> jn_TicketID NEW = None
               \<and> select_active_journey_of_card m d = [])))
   \<or> (\<exists>OLD NEW. find (\<lambda>j. jn_JourneyID j = jn_JourneyID NEW) (journeys d) = Some OLD
         \<and> jn_Status OLD = Active \<and> jn_Status NEW = Completed
         \<and> journeys (snd (handle clk r d)) =
             map (\<lambda>j. if jn_JourneyID j = jn_JourneyID NEW then NEW else j) (journeys d))"
  (is "?same \<or> ?started \<or> ?completed")
proof (cases r)
  case (PostJourneyEntry mediaType mediaId stationId)
  show ?thesis
  proof (cases "(mediaType \<noteq> ''Ticket'' \<and> mediaType \<noteq> ''Card'') \<or> mediaId < 1 \<or> stationId < 1")
    case True
    with PostJourneyEntry show ?thesis by simp
  next
    case False
    obtain res d' where e: "journeyEntry clk mediaType mediaId stationId d = (res, d')"
      by (cases "journeyEntry clk mediaType mediaId stationId d")
    with False PostJourneyEntry have s: "snd (handle clk r d) = d'" by auto
    from journeyEntry_cases [OF e] show ?thesis
    proof (elim disjE exE conjE)
      assume "d' = d"
      with s show ?thesis by simp
    next
      fix jid
      assume a: "select_active_journey_of_ticket mediaId d = []"
        and b: "start_journey clk Ticket stationId (Some mediaId) None d = Inr (jid, d')"
      from start_journey_journeys [OF b] a s have ?started by simp
      then show ?thesis by blast
    next
      fix jid
      assume a: "select_active_journey_of_card mediaId d = []"
        and b: "start_journey clk Card stationId None (Some mediaId) d = Inr (jid, d')"
      from start_journey_journeys [OF b] a s have ?started by simp
      then show ?thesis by blast
    qed
  qed
next
  case (PostJourneyExit mediaType mediaId stationId)
  show ?thesis
  proof (cases "(mediaType \<noteq> ''Ticket'' \<and> mediaType \<noteq> ''Card'') \<or> mediaId < 1 \<or> stationId < 1")
    case True
    with PostJourneyExit show ?thesis by simp
  next
    case False
    obtain res d' where e: "journeyExit clk mediaType mediaId stationId d = (res, d')"
      by (cases "journeyExit clk mediaType mediaId stationId d")
    with False PostJourneyExit have s: "snd (handle clk r d) = d'" by auto
    have c: ?completed if "complete_journey clk jid stationId d = Inr (fd, d')" for jid fd
    proof -
      from complete_journey_journeys [OF that] obtain OLD NEW where
        "find (\<lambda>j. jn_JourneyID j = jid) (journeys d) = Some OLD" "jn_Status OLD = Active"
        "jn_Status NEW = Completed" "jn_JourneyID NEW = jid"
        "journeys d' = map (\<lambda>j. if jn_JourneyID j = jid then NEW else j) (journeys d)"
        by blast
      with s show ?thesis by (intro exI [of _ OLD] exI [of _ NEW]) simp
    qed
    from journeyExit_cases [OF e] show ?thesis
    proof (elim disjE exE conjE)
      assume "d' = d"
      with s show ?thesis by simp
    qed (use c in blast)+
  qed
next
  case (PostCardsRegister userId paymentMethod)
  then show ?thesis by (simp add: registerCard_frame)
next
  case (PostCardsRecharge userId amount paymentMethod)
  then show ?thesis by (simp add: rechargeCard_frame)
next
  case (PostTicketsBook userId fromStationId toStationId paymentMethod)
  then show ?thesis by (simp add: bookTicket_frame)
next
  case (GetStationsFares fromStationId toStationId)
  then show ?thesis by simp
qed

section \<open>One active journey per ticket and per card\<close>

lemma handle_one_active:
  assumes inv: "\<forall>m. length (select_active_journey_of_ticket m d) \<le> 1
                  \<and> length (select_active_journey_of_card m d) \<le> 1"
  shows "\<forall>m. length (select_active_journey_of_ticket m (snd (handle clk r d))) \<le> 1
            \<and> length (select_active_journey_of_card m (snd (handle clk r d))) \<le> 1"
proof -
  let ?d' = "snd (handle clk r d)"
  from handle_journeys [of clk r d] show ?thesis
  proof (elim disjE exE conjE)
    assume "journeys ?d' = journeys d"
    with inv show ?thesis
      by (simp add: select_active_journey_of_ticket_def select_active_journey_of_card_def)
  next
    fix NEW m
    assume j: "journeys ?d' = journeys d @ [NEW]"
      and t: "jn_TicketID NEW = Some m" "jn_CardID NEW = None"
             "select_active_journey_of_ticket m d = []"
    show ?thesis
    proof
      fix k
      from inv have "length (select_active_journey_of_ticket k d) \<le> 1"
        "length (select_active_journey_of_card k d) \<le> 1" by simp_all
      with j t show "length (select_active_journey_of_ticket k ?d') \<le> 1
            \<and> length (select_active_journey_of_card k ?d') \<le> 1"
        by (cases "k = m")
           (auto simp: select_active_journey_of_ticket_def select_active_journey_of_card_def)
    qed
  next
    fix NEW m
    assume j: "journeys ?d' = journeys d @ [NEW]"
      and t: "jn_CardID NEW = Some m" "jn_TicketID NEW = None"
             "select_active_journey_of_card m d = []"
    show ?thesis
    proof
      fix k
      from inv have "length (select_active_journey_of_ticket k d) \<le> 1"
        "length (select_active_journey_of_card k d) \<le> 1" by simp_all
      with j t show "length (select_active_journey_of_ticket k ?d') \<le> 1
            \<and> length (select_active_journey_of_card k ?d') \<le> 1"
        by (cases "k = m")
           (auto simp: select_active_journey_of_ticket_def select_active_journey_of_card_def)
    qed
  next
    fix OLD NEW
    assume c: "jn_Status NEW = Completed"
      and j: "journeys ?d' = map (\<lambda>j. if jn_JourneyID j = jn_JourneyID NEW then NEW else j) (journeys d)"
    show ?thesis
    proof
      fix k
      have "length (filter (\<lambda>j. jn_TicketID j = Some k \<and> jn_Status j = Active) (journeys ?d'))
            \<le> length (filter (\<lambda>j. jn_TicketID j = Some k \<and> jn_Status j = Active) (journeys d))"
        unfolding j using c by (intro length_filter_map_le) (auto split: if_splits)
      moreover
      have "length (filter (\<lambda>j. jn_CardID j = Some k \<and> jn_Status j = Active) (journeys ?d'))
            \<le> length (filter (\<lambda>j. jn_CardID j = Some k \<and> jn_Status j = Active) (journeys d))"
        unfolding j using c by (intro length_filter_map_le) (auto split: if_splits)
      moreover
      from inv have "length (select_active_journey_of_ticket k d) \<le> 1"
        "length (select_active_journey_of_card k d) \<le> 1" by simp_all
      ultimately show "length (select_active_journey_of_ticket k ?d') \<le> 1
            \<and> length (select_active_journey_of_card k ?d') \<le> 1"
        by (simp add: select_active_journey_of_ticket_def select_active_journey_of_card_def)
    qed
  qed
qed

lemma run_one_active:
  "\<forall>m. length (select_active_journey_of_ticket m d) \<le> 1
       \<and> length (select_active_journey_of_card m d) \<le> 1 \<Longrightarrow>
   \<forall>m. length (select_active_journey_of_ticket m (run rs d)) \<le> 1
       \<and> length (select_active_journey_of_card m (run rs d)) \<le> 1"
proof (induction rs arbitrary: d)
  case Nil
  then show ?case by simp
next
  case (Cons a rs)
  obtain clk r where a: "a = (clk, r)" by (cases a)
  from Cons.IH [OF handle_one_active [OF Cons.prems, of clk r]] a show ?case by simp
qed

text \<open>
  Claim C2. Start from a database in which every ticket and every card has at most one
  journey row with status \<open>Active\<close>. After any sequence of requests to the routes (gate
  entries and exits, card registrations and recharges, ticket bookings, fare queries),
  whatever their arguments and outcomes, every ticket and every card still has at most
  one \<open>Active\<close> journey row.
\<close>

theorem at_most_one_active_journey:
  assumes "\<forall>m. length (select_active_journey_of_ticket m d) \<le> 1
              \<and> length (select_active_journey_of_card m d) \<le> 1"
  shows "length (select_active_journey_of_ticket mediaId (run rs d)) \<le> 1
       \<and> length (select_active_journey_of_card mediaId (run rs d)) \<le> 1"
  using run_one_active [OF assms, of rs] by simp

theorem at_most_one_active_journey_witness:
  "(\<forall>m. length (select_active_journey_of_ticket m db_ex) \<le> 1
       \<and> length (select_active_journey_of_card m db_ex) \<le> 1)
   \<and> length (select_active_journey_of_ticket 1
        (run [(clk_ex, PostJourneyEntry ''Card'' 1 1), (clk_ex, PostJourneyEntry ''Card'' 1 2)] db_ex)) \<le> 1
   \<and> length (select_active_journey_of_card 1
        (run [(clk_ex, PostJourneyEntry ''Card'' 1 1), (clk_ex, PostJourneyEntry ''Card'' 1 2)] db_ex)) \<le> 1"
proof -
  have h: "\<forall>m. length (select_active_journey_of_ticket m db_ex) \<le> 1
       \<and> length (select_active_journey_of_card m db_ex) \<le> 1"
    by (simp add: select_active_journey_of_ticket_def select_active_journey_of_card_def db_ex_def)
  from h at_most_one_active_journey [OF h] show ?thesis by blast
qed

section \<open>Fare settlement on completion\<close>

lemma complete_journey_fare_charged:
  assumes "complete_journey_fare clk OLD NEW d = Inr (N, d')"
    and "jn_ExitStationID NEW = Some ex" and "jn_CardID NEW = Some cid"
    and "jn_Status NEW = Completed" and "jn_Status OLD \<noteq> Completed"
    and "0 < get_current_fare clk (jn_EntryStationID NEW) ex d"
  shows "\<exists>c. find (\<lambda>c. sc_CardID c = cid) (smartcards d) = Some c
           \<and> get_current_fare clk (jn_EntryStationID NEW) ex d \<le> sc_Balance c
           \<and> update_smartcard cid
                (\<lambda>c. c\<lparr>sc_Balance := sc_Balance c - get_current_fare clk (jn_EntryStationID NEW) ex d\<rparr>) d
              = Inr d'
           \<and> N = NEW\<lparr>jn_FareDeducted := Some (get_current_fare clk (jn_EntryStationID NEW) ex d)\<rparr>"
  using assms
  by (auto simp: complete_journey_fare_def Let_def split: option.splits if_splits sum.splits)

lemma complete_journey_fare_free:
  assumes "complete_journey_fare clk OLD NEW d = Inr (N, d')"
    and "jn_ExitStationID NEW = Some ex"
    and "jn_CardID NEW = None \<or> \<not> 0 < get_current_fare clk (jn_EntryStationID NEW) ex d"
  shows "N = NEW \<and> d' = d"
  using assms
  by (auto simp: complete_journey_fare_def Let_def split: option.splits if_splits sum.splits)

text \<open>
  Where the fare is positive the settlement is as specified. When \<open>complete_journey\<close>
  completes a journey of a card and \<open>get_current_fare\<close> for its entry station and the
  exit station, read at completion, is positive, then the journey row is stored with
  status \<open>Completed\<close> and \<open>FareDeducted\<close> equal to that fare, the function returns that
  fare, and the balance of the card is lower by exactly that fare.
\<close>

theorem completed_card_journey_fare:
  assumes compl: "complete_journey clk jid sid d = Inr (fd, d')"
    and row: "find (\<lambda>j. jn_JourneyID j = jid) (journeys d) = Some j"
    and crd: "jn_CardID j = Some cid"
    and pos: "0 < get_current_fare clk (jn_EntryStationID j) sid d"
  shows "\<exists>j' c c'.
           find (\<lambda>j. jn_JourneyID j = jid) (journeys d') = Some j'
         \<and> jn_Status j' = Completed \<and> jn_ExitStationID j' = Some sid
         \<and> jn_FareDeducted j' = Some (get_current_fare clk (jn_EntryStationID j) sid d)
         \<and> fd = Some (get_current_fare clk (jn_EntryStationID j) sid d)
         \<and> find (\<lambda>c. sc_CardID c = cid) (smartcards d) = Some c
         \<and> find (\<lambda>c. sc_CardID c = cid) (smartcards d') = Some c'
         \<and> sc_Balance c' = sc_Balance c - get_current_fare clk (jn_EntryStationID j) sid d"
proof -
  let ?fare = "get_current_fare clk (jn_EntryStationID j) sid d"
  let ?NEW0 = "j\<lparr>jn_ExitStationID := Some sid,
                  jn_ExitTime := Some (CURRENT_TIMESTAMP clk + 1000000),
                  jn_Status := Completed\<rparr>"
  from complete_journey_Inr [OF compl] row obtain NEW d1 where
    act: "jn_Status j = Active"
    and trg: "complete_journey_fare clk j ?NEW0 d = Inr (NEW, d1)"
    and fd: "fd = jn_FareDeducted NEW"
    and d': "d' = d1\<lparr>journeys := map (\<lambda>j. if jn_JourneyID j = jid then NEW else j) (journeys d1)\<rparr>"
    by auto
  from act have nc: "jn_Status j \<noteq> Completed" by simp
  from complete_journey_fare_charged [OF trg, of sid cid] crd nc pos
  obtain c where
    c: "find (\<lambda>c. sc_CardID c = cid) (smartcards d) = Some c"
    and upd: "update_smartcard cid (\<lambda>c. c\<lparr>sc_Balance := sc_Balance c - ?fare\<rparr>) d = Inr d1"
    and NEW: "NEW = ?NEW0\<lparr>jn_FareDeducted := Some ?fare\<rparr>"
    by auto
  from find_SomeD [OF row] have id: "jn_JourneyID j = jid" by simp
  with NEW have idN: "jn_JourneyID NEW = jid" by simp
  from update_smartcard_Inr(1) [OF upd]
  have d1: "d1 = d\<lparr>smartcards :=
                map (\<lambda>c. if sc_CardID c = cid then c\<lparr>sc_Balance := sc_Balance c - ?fare\<rparr> else c)
                    (smartcards d)\<rparr>" .
  from find_SomeD [OF c] have cid: "sc_CardID c = cid" by simp
  have fj: "find (\<lambda>j. jn_JourneyID j = jid) (journeys d') = Some NEW"
    using row by (simp add: d' d1 find_replace [of jn_JourneyID, OF idN])
  have "find (\<lambda>c. sc_CardID c = cid) (smartcards d')
        = map_option (\<lambda>c. if sc_CardID c = cid then c\<lparr>sc_Balance := sc_Balance c - ?fare\<rparr> else c)
            (find (\<lambda>c. sc_CardID c = cid) (smartcards d))"
    by (simp add: d' d1 find_map_upd_key [of sc_CardID])
  with c cid have fc: "find (\<lambda>c. sc_CardID c = cid) (smartcards d')
        = Some (c\<lparr>sc_Balance := sc_Balance c - ?fare\<rparr>)" by simp
  show ?thesis
    by (intro exI [of _ NEW] exI [of _ c] exI [of _ "c\<lparr>sc_Balance := sc_Balance c - ?fare\<rparr>"])
       (simp add: fj fc c fd NEW)
qed

lemmas run_defs =
  clk_ex_def db_ex_def journey_ex_def db_entered_def db_settled_def db_free_ride_def
  journey_ex2_def card_ex2_def db_entered2_def ticket_ex_def booking_ex_def db_booked_def
  journey_ex3_def db_ticket_entered_def db_ticket_left_def
  fresh_def
  fare_where_def get_current_fare_def
  update_smartcard_def insert_smartcard_def insert_transaction_def insert_payment_def
  insert_ticket_def chk_journey_def fk_journey_def
  process_card_recharge_def update_card_last_used_def mark_ticket_used_def
  complete_journey_fare_def validate_booking_fare_def
  insert_journey_def update_journey_def insert_booking_def insert_recharge_def
  create_ticket_booking_def recharge_smart_card_def start_journey_def complete_journey_def
  errorHandler_def parseFloat_def
  select_ticket_with_booking_def select_active_journey_of_ticket_def
  select_active_journey_of_card_def select_active_journey_with_booking_def
  journeyEntry_def journeyExit_def registerCard_def rechargeCard_def bookTicket_def
  getFare_def Let_def

lemma entry_example: "journeyEntry clk_ex ''Card'' 1 1 db_ex = (EntryPermitted 1, db_entered)"
  by (simp add: run_defs)

theorem completed_card_journey_fare_witness:
  "complete_journey clk_ex 1 2 db_entered = Inr (Some 3000, db_settled)
   \<and> find (\<lambda>j. jn_JourneyID j = 1) (journeys db_entered) = Some journey_ex
   \<and> jn_CardID journey_ex = Some 1
   \<and> 0 < get_current_fare clk_ex (jn_EntryStationID journey_ex) 2 db_entered
   \<and> (\<exists>j' c c'.
           find (\<lambda>j. jn_JourneyID j = 1) (journeys db_settled) = Some j'
         \<and> jn_Status j' = Completed \<and> jn_ExitStationID j' = Some 2
         \<and> jn_FareDeducted j' = Some (get_current_fare clk_ex (jn_EntryStationID journey_ex) 2 db_entered)
         \<and> Some 3000 = Some (get_current_fare clk_ex (jn_EntryStationID journey_ex) 2 db_entered)
         \<and> find (\<lambda>c. sc_CardID c = 1) (smartcards db_entered) = Some c
         \<and> find (\<lambda>c. sc_CardID c = 1) (smartcards db_settled) = Some c'
         \<and> sc_Balance c' = sc_Balance c - get_current_fare clk_ex (jn_EntryStationID journey_ex) 2 db_entered)"
proof -
  have h1: "complete_journey clk_ex 1 2 db_entered = Inr (Some 3000, db_settled)"
    by (simp add: run_defs)
  have h2: "find (\<lambda>j. jn_JourneyID j = 1) (journeys db_entered) = Some journey_ex"
    by (simp add: run_defs)
  have h3: "jn_CardID journey_ex = Some 1"
    by (simp add: run_defs)
  have h4: "0 < get_current_fare clk_ex (jn_EntryStationID journey_ex) 2 db_entered"
    by (simp add: run_defs)
  from completed_card_journey_fare [OF h1 h2 h3 h4] h1 h2 h3 h4 show ?thesis by blast
qed

text \<open>
  Where the fare is not positive, \<open>complete_journey\<close> still completes the journey: the
  trigger skips its block \<open>IF v_fare > 0\<close>, no balance is written and \<open>FareDeducted\<close>
  keeps the value the \<open>Active\<close> row had.
\<close>

lemma complete_journey_without_fare:
  assumes compl: "complete_journey clk jid sid d = Inr (fd, d')"
    and row: "find (\<lambda>j. jn_JourneyID j = jid) (journeys d) = Some j"
    and nonpos: "\<not> 0 < get_current_fare clk (jn_EntryStationID j) sid d"
  shows "smartcards d' = smartcards d \<and> fd = jn_FareDeducted j"
proof -
  let ?NEW0 = "j\<lparr>jn_ExitStationID := Some sid,
                  jn_ExitTime := Some (CURRENT_TIMESTAMP clk + 1000000),
                  jn_Status := Completed\<rparr>"
  from complete_journey_Inr [OF compl] row obtain NEW d1 where
    trg: "complete_journey_fare clk j ?NEW0 d = Inr (NEW, d1)"
    and fd: "fd = jn_FareDeducted NEW"
    and d': "d' = d1\<lparr>journeys := map (\<lambda>j. if jn_JourneyID j = jid then NEW else j) (journeys d1)\<rparr>"
    by auto
  from complete_journey_fare_free [OF trg, of sid] nonpos
  have "NEW = ?NEW0 \<and> d1 = d" by simp
  with fd d' show ?thesis by simp
qed

text \<open>
  Claim C1 on the code. Card 1 has an \<open>Active\<close> journey entered at station 1 and leaves
  at station 3. No fare row exists for that pair and \<open>get_current_fare\<close> returns its
  zero. \<open>complete_journey\<close> succeeds all the same: the journey of the card is stored as
  \<open>Completed\<close> with \<open>FareDeducted\<close> \<open>NULL\<close>, which is not the value of
  \<open>get_current_fare\<close> at completion, and the function returns \<open>NULL\<close>. The balance half
  of the claim holds here: no row of \<open>SmartCard\<close> is changed, so the balance went down
  by the zero that \<open>get_current_fare\<close> returned.
\<close>

theorem completed_card_journey_without_fare:
  "get_current_fare clk_ex 1 3 db_entered = 0
   \<and> complete_journey clk_ex 1 3 db_entered = Inr (None, db_free_ride)
   \<and> journeys db_entered = [journey_ex]
   \<and> jn_JourneyID journey_ex = 1 \<and> jn_CardID journey_ex = Some 1
   \<and> jn_EntryStationID journey_ex = 1 \<and> jn_Status journey_ex = Active
   \<and> journeys db_free_ride
       = [journey_ex\<lparr>jn_ExitStationID := Some 3, jn_ExitTime := Some 1000100,
                       jn_Status := Completed\<rparr>]
   \<and> jn_Status (journey_ex\<lparr>jn_ExitStationID := Some 3, jn_ExitTime := Some 1000100,
                          jn_Status := Completed\<rparr>) = Completed
   \<and> jn_FareDeducted (journey_ex\<lparr>jn_ExitStationID := Some 3, jn_ExitTime := Some 1000100,
                          jn_Status := Completed\<rparr>) = None
   \<and> jn_FareDeducted (journey_ex\<lparr>jn_ExitStationID := Some 3, jn_ExitTime := Some 1000100,
                          jn_Status := Completed\<rparr>)
       \<noteq> Some (get_current_fare clk_ex (jn_EntryStationID journey_ex) 3 db_entered)
   \<and> smartcards db_free_ride = smartcards db_entered"
  by (simp add: run_defs)

text \<open>
  Claim C4 on the code. Card 1 entered at station 1 and leaves at station 3. No fare row
  exists for that pair, \<open>get_current_fare\<close> returns its zero, and \<open>journeyExit\<close> answers
  \<open>Exit permitted\<close>: the journey is \<open>Completed\<close>, nothing is deducted, and the response
  carries \<open>NaN\<close> as fare and as new balance. The other callers of \<open>get_current_fare\<close>
  treat the zero as a failure: for the same pair \<open>create_ticket_booking\<close> raises
  \<open>No fare found for route\<close>, so that \<open>bookTicket\<close> answers 500, and \<open>getFare\<close> answers
  404 \<open>Fare not found for this route\<close>.
\<close>

theorem card_exit_without_fare_is_permitted:
  "get_current_fare clk_ex 1 3 db_entered = 0
   \<and> journeyExit clk_ex ''Card'' 1 3 db_entered
       = (ExitPermitted 1 NaN (Some NaN) False, db_free_ride)
   \<and> smartcards db_free_ride = smartcards db_entered
   \<and> map jn_Status (journeys db_free_ride) = [Completed]
   \<and> map jn_FareDeducted (journeys db_free_ride) = [None]
   \<and> create_ticket_booking clk_ex 1 1 3 UPI 24 db_entered = Inl NoFareFoundForRoute
   \<and> bookTicket clk_ex 1 1 3 UPI db_entered
       = (Error 500 (DatabaseMessage NoFareFoundForRoute), db_entered)
   \<and> getFare clk_ex 1 3 db_entered = Error 404 FareNotFound"
  by (simp add: run_defs)

section \<open>Rejections at the gate\<close>

text \<open>
  Claim C3. A card leaves at an existing, operational station; the card has an \<open>Active\<close>
  journey, and its balance is less than \<open>get_current_fare\<close> for the entry station of
  that journey and the exit station. Then \<open>journeyExit\<close> answers 400 \<open>Insufficient
  balance\<close> and the database it leaves is the database it found: the journey is still
  \<open>Active\<close> and the balance is what it was.
\<close>

theorem card_exit_insufficient_balance:
  assumes "find (\<lambda>s. st_StationID s = stationId) (stations d) = Some st"
    and "st_IsOperational st"
    and "select_active_journey_of_card mediaId d = j # rest"
    and "find (\<lambda>c. sc_CardID c = mediaId) (smartcards d) = Some c"
    and "sc_Balance c < get_current_fare clk (jn_EntryStationID j) stationId d"
  shows "journeyExit clk ''Card'' mediaId stationId d = (Error 400 InsufficientBalance, d)
       \<and> j \<in> set (journeys (snd (journeyExit clk ''Card'' mediaId stationId d)))
       \<and> jn_Status j = Active
       \<and> find (\<lambda>c. sc_CardID c = mediaId)
            (smartcards (snd (journeyExit clk ''Card'' mediaId stationId d))) = Some c"
proof -
  have r: "journeyExit clk ''Card'' mediaId stationId d = (Error 400 InsufficientBalance, d)"
    using assms by (simp add: journeyExit_def)
  from assms(3) have "j \<in> set (select_active_journey_of_card mediaId d)" by simp
  then have "j \<in> set (journeys d)" "jn_Status j = Active"
    by (simp_all add: select_active_journey_of_card_def)
  with r assms(4) show ?thesis by simp
qed

theorem card_exit_insufficient_balance_witness:
  "find (\<lambda>s. st_StationID s = 2) (stations db_entered2) = Some \<lparr>st_StationID = 2, st_IsOperational = True\<rparr>
   \<and> st_IsOperational \<lparr>st_StationID = 2, st_IsOperational = True\<rparr>
   \<and> select_active_journey_of_card 2 db_entered2 = [journey_ex2]
   \<and> find (\<lambda>c. sc_CardID c = 2) (smartcards db_entered2) = Some card_ex2
   \<and> sc_Balance card_ex2 < get_current_fare clk_ex (jn_EntryStationID journey_ex2) 2 db_entered2
   \<and> journeyExit clk_ex ''Card'' 2 2 db_entered2 = (Error 400 InsufficientBalance, db_entered2)"
proof -
  have h1: "find (\<lambda>s. st_StationID s = 2) (stations db_entered2) = Some \<lparr>st_StationID = 2, st_IsOperational = True\<rparr>"
    by (simp add: run_defs)
  have h2: "st_IsOperational \<lparr>st_StationID = 2, st_IsOperational = True\<rparr>" by simp
  have h3: "select_active_journey_of_card 2 db_entered2 = journey_ex2 # []"
    by (simp add: run_defs)
  have h4: "find (\<lambda>c. sc_CardID c = 2) (smartcards db_entered2) = Some card_ex2"
    by (simp add: run_defs)
  have h5: "sc_Balance card_ex2 < get_current_fare clk_ex (jn_EntryStationID journey_ex2) 2 db_entered2"
    by (simp add: run_defs)
  from card_exit_insufficient_balance [OF h1 h2 h3 h4 h5] h1 h2 h3 h4 h5 show ?thesis by simp
qed

lemma complete_journey_insufficient_balance:
  assumes "find (\<lambda>j. jn_JourneyID j = jid) (journeys d) = Some j"
    and "jn_Status j = Active" and "jn_CardID j = Some cid"
    and "find (\<lambda>c. sc_CardID c = cid) (smartcards d) = Some c"
    and "0 < get_current_fare clk (jn_EntryStationID j) sid d"
    and "sc_Balance c < get_current_fare clk (jn_EntryStationID j) sid d"
  shows "complete_journey clk jid sid d = Inl InsufficientBalanceOnCard"
  using assms
  by (simp add: complete_journey_def update_journey_def complete_journey_fare_def Let_def)

text \<open>
  Claim C10. A ticket is presented at a gate whose station is not the source station of
  the ticket's booking. Then \<open>journeyEntry\<close> rejects the entry and leaves the database as
  it found it; and when the station exists and is operational, the ticket is unused and
  the time is inside its validity window, the rejection is 400 \<open>Entry station does not
  match ticket source station\<close>.
\<close>

theorem ticket_entry_station_mismatch:
  assumes "select_ticket_with_booking mediaId d = (t, b) # rest"
    and "bk_SourceStationID b \<noteq> stationId"
  shows "(\<exists>code msg. journeyEntry clk ''Ticket'' mediaId stationId d = (Error code msg, d))
       \<and> (find (\<lambda>s. st_StationID s = stationId) (stations d) = Some st \<and> st_IsOperational st
            \<and> \<not> tk_IsUsed t
            \<and> tk_ValidFrom t \<le> new_Date clk \<and> new_Date clk \<le> tk_ValidUntil t
          \<longrightarrow> journeyEntry clk ''Ticket'' mediaId stationId d = (Error 400 EntryStationMismatch, d))"
  using assms
  by (auto simp: journeyEntry_def split: option.splits)


theorem ticket_entry_station_mismatch_witness:
  "select_ticket_with_booking 1 db_booked = [(ticket_ex, booking_ex)]
   \<and> bk_SourceStationID booking_ex \<noteq> 3
   \<and> \<not> tk_IsUsed ticket_ex
   \<and> tk_ValidFrom ticket_ex \<le> new_Date clk_ex
   \<and> new_Date clk_ex \<le> tk_ValidUntil ticket_ex
   \<and> journeyEntry clk_ex ''Ticket'' 1 3 db_booked = (Error 400 EntryStationMismatch, db_booked)"
proof -
  have h1: "select_ticket_with_booking 1 db_booked = (ticket_ex, booking_ex) # []"
    by (simp add: run_defs)
  have h2: "bk_SourceStationID booking_ex \<noteq> 3" by (simp add: run_defs)
  have h3: "find (\<lambda>s. st_StationID s = 3) (stations db_booked)
              = Some \<lparr>st_StationID = 3, st_IsOperational = True\<rparr>
            \<and> st_IsOperational \<lparr>st_StationID = 3, st_IsOperational = True\<rparr>
            \<and> \<not> tk_IsUsed ticket_ex
            \<and> tk_ValidFrom ticket_ex \<le> new_Date clk_ex
            \<and> new_Date clk_ex \<le> tk_ValidUntil ticket_ex"
    by (simp add: run_defs)
  from ticket_entry_station_mismatch [OF h1 h2, of clk_ex "\<lparr>st_StationID = 3, st_IsOperational = True\<rparr>"]
    h1 h2 h3 show ?thesis by simp
qed

lemma booking_example:
  "create_ticket_booking clk_ex 1 1 2 UPI 24 db_ex = Inr (1, db_booked)"
  by (simp add: run_defs)

section \<open>Card balances\<close>

lemma update_smartcard_bounds:
  assumes inv: "\<forall>c \<in> set (smartcards d). 0 \<le> sc_Balance c \<and> sc_Balance c \<le> 1000000"
    and u: "update_smartcard cid upd d = Inr d'"
  shows "\<forall>c \<in> set (smartcards d'). 0 \<le> sc_Balance c \<and> sc_Balance c \<le> 1000000"
  using inv update_smartcard_Inr(2) [OF u]
  by (auto simp: update_smartcard_Inr(1) [OF u])

lemma start_journey_bounds:
  assumes inv: "\<forall>c \<in> set (smartcards d). 0 \<le> sc_Balance c \<and> sc_Balance c \<le> 1000000"
    and s: "start_journey clk ty sid tid cid d = Inr (jid, d')"
  shows "\<forall>c \<in> set (smartcards d'). 0 \<le> sc_Balance c \<and> sc_Balance c \<le> 1000000"
proof -
  from start_journey_Inr [OF s] obtain NEW where i: "insert_journey clk NEW d = Inr d'" by blast
  let ?d0 = "mark_ticket_used NEW (d\<lparr>journeys := journeys d @ [NEW]\<rparr>)"
  have sc: "smartcards ?d0 = smartcards d"
    by (simp add: mark_ticket_used_def split: option.splits)
  from insert_journey_Inr(6) [OF i] have u: "update_card_last_used clk NEW ?d0 = Inr d'" .
  show ?thesis
  proof (cases "jn_CardID NEW")
    case None
    with u sc show ?thesis using inv by (simp add: update_card_last_used_def)
  next
    case (Some c)
    with u have "update_smartcard c (\<lambda>c. c\<lparr>sc_LastUsedAt := Some (CURRENT_TIMESTAMP clk)\<rparr>) ?d0 = Inr d'"
      by (simp add: update_card_last_used_def)
    from update_smartcard_bounds [OF _ this] inv sc show ?thesis by simp
  qed
qed

lemma complete_journey_bounds:
  assumes inv: "\<forall>c \<in> set (smartcards d). 0 \<le> sc_Balance c \<and> sc_Balance c \<le> 1000000"
    and s: "complete_journey clk jid sid d = Inr (fd, d')"
  shows "\<forall>c \<in> set (smartcards d'). 0 \<le> sc_Balance c \<and> sc_Balance c \<le> 1000000"
proof -
  from complete_journey_Inr [OF s] obtain OLD NEW d1 where
    c: "complete_journey_fare clk OLD
               (OLD\<lparr>jn_ExitStationID := Some sid,
                     jn_ExitTime := Some (CURRENT_TIMESTAMP clk + 1000000),
                     jn_Status := Completed\<rparr>) d = Inr (NEW, d1)"
    and d': "d' = d1\<lparr>journeys := map (\<lambda>j. if jn_JourneyID j = jid then NEW else j) (journeys d1)\<rparr>"
    by blast
  from complete_journey_fare_Inr [OF c]
  have "\<forall>c \<in> set (smartcards d1). 0 \<le> sc_Balance c \<and> sc_Balance c \<le> 1000000"
  proof (elim disjE exE conjE)
    assume "d1 = d"
    with inv show ?thesis by simp
  next
    fix ex cid c
    assume "update_smartcard cid
             (\<lambda>c. c\<lparr>sc_Balance := sc_Balance c
                      - get_current_fare clk
                          (jn_EntryStationID (OLD\<lparr>jn_ExitStationID := Some sid,
                             jn_ExitTime := Some (CURRENT_TIMESTAMP clk + 1000000),
                             jn_Status := Completed\<rparr>)) ex d\<rparr>) d = Inr d1"
    from update_smartcard_bounds [OF inv this] show ?thesis .
  qed
  with d' show ?thesis by simp
qed

lemma find_fresh_None: "find (\<lambda>x. key x = fresh (map key xs)) xs = None"
proof -
  have "key x \<noteq> fresh (map key xs)" if "x \<in> set xs" for x
  proof
    assume "key x = fresh (map key xs)"
    with that have "fresh (map key xs) \<in> set (map key xs)" by force
    with fresh_notin show False by blast
  qed
  then show ?thesis by (auto simp: find_None_iff)
qed

lemma find_append:
  "find P (xs @ ys) = (case find P xs of None \<Rightarrow> find P ys | Some x \<Rightarrow> Some x)"
  by (induction xs) auto

lemma recharge_smart_card_steps:
  assumes "recharge_smart_card clk u cid a m d = Inr (x, d')"
  shows "\<exists>d1 v2 d3. d1 = d\<lparr>transactions := transactions d @
                  [\<lparr>tx_TransactionID = fresh (map tx_TransactionID (transactions d)),
                    tx_UserID = u, tx_Amount = a, tx_TransactionType = Recharge\<rparr>]\<rparr>
           \<and> update_smartcard cid
                (\<lambda>c. c\<lparr>sc_Balance := sc_Balance c + a,
                       sc_LastUsedAt := Some (CURRENT_TIMESTAMP clk)\<rparr>)
                (d1\<lparr>recharges := recharges d1 @
                   [\<lparr>rc_RechargeID = fresh (map rc_RechargeID (recharges d1)),
                     rc_TransactionID = fresh (map tx_TransactionID (transactions d)),
                     rc_CardID = cid\<rparr>]\<rparr>) = Inr d3
           \<and> insert_payment (fresh (map tx_TransactionID (transactions d))) m Success d3 = Inr (v2, d')"
proof -
  let ?v1 = "fresh (map tx_TransactionID (transactions d))"
  let ?t = "\<lparr>tx_TransactionID = ?v1, tx_UserID = u, tx_Amount = a, tx_TransactionType = Recharge\<rparr>"
  let ?d1 = "d\<lparr>transactions := transactions d @ [?t]\<rparr>"
  from assms obtain v2 d2 v3 where
    1: "insert_transaction u a Recharge d = Inr (?v1, ?d1)" and
    2: "insert_recharge clk ?v1 cid ?d1 = Inr (v2, d2)" and
    3: "insert_payment ?v1 m Success d2 = Inr (v3, d')"
    by (auto simp: recharge_smart_card_def insert_transaction_def Let_def
             split: if_splits sum.splits prod.splits)
  have f: "find (\<lambda>t. tx_TransactionID t = ?v1) (transactions d @ [?t]) = Some ?t"
    by (simp add: find_append find_fresh_None [of tx_TransactionID])
  from 2 f have "update_smartcard cid
                (\<lambda>c. c\<lparr>sc_Balance := sc_Balance c + a,
                       sc_LastUsedAt := Some (CURRENT_TIMESTAMP clk)\<rparr>)
                (?d1\<lparr>recharges := recharges ?d1 @
                   [\<lparr>rc_RechargeID = fresh (map rc_RechargeID (recharges ?d1)),
                     rc_TransactionID = ?v1, rc_CardID = cid\<rparr>]\<rparr>) = Inr d2"
    by (auto simp: insert_recharge_def process_card_recharge_def Let_def
             split: if_splits sum.splits)
  with 3 show ?thesis by blast
qed

lemma recharge_smart_card_update:
  assumes "recharge_smart_card clk u cid a m d = Inr (x, d')"
  shows "\<exists>d0 v2 d3. smartcards d0 = smartcards d
           \<and> update_smartcard cid
                (\<lambda>c. c\<lparr>sc_Balance := sc_Balance c + a,
                       sc_LastUsedAt := Some (CURRENT_TIMESTAMP clk)\<rparr>) d0 = Inr d3
           \<and> insert_payment (fresh (map tx_TransactionID (transactions d))) m Success d3 = Inr (v2, d')"
proof -
  from recharge_smart_card_steps [OF assms] obtain d1 v2 d3 where
    d1: "d1 = d\<lparr>transactions := transactions d @
                  [\<lparr>tx_TransactionID = fresh (map tx_TransactionID (transactions d)),
                    tx_UserID = u, tx_Amount = a, tx_TransactionType = Recharge\<rparr>]\<rparr>"
    and u: "update_smartcard cid
                (\<lambda>c. c\<lparr>sc_Balance := sc_Balance c + a,
                       sc_LastUsedAt := Some (CURRENT_TIMESTAMP clk)\<rparr>)
                (d1\<lparr>recharges := recharges d1 @
                   [\<lparr>rc_RechargeID = fresh (map rc_RechargeID (recharges d1)),
                     rc_TransactionID = fresh (map tx_TransactionID (transactions d)),
                     rc_CardID = cid\<rparr>]\<rparr>) = Inr d3"
    and p: "insert_payment (fresh (map tx_TransactionID (transactions d))) m Success d3 = Inr (v2, d')"
    by blast
  from d1 have "smartcards (d1\<lparr>recharges := recharges d1 @
                   [\<lparr>rc_RechargeID = fresh (map rc_RechargeID (recharges d1)),
                     rc_TransactionID = fresh (map tx_TransactionID (transactions d)),
                     rc_CardID = cid\<rparr>]\<rparr>) = smartcards d" by simp
  with u p show ?thesis by blast
qed

lemma recharge_smart_card_bounds:
  assumes inv: "\<forall>c \<in> set (smartcards d). 0 \<le> sc_Balance c \<and> sc_Balance c \<le> 1000000"
    and s: "recharge_smart_card clk u cid a m d = Inr (x, d')"
  shows "\<forall>c \<in> set (smartcards d'). 0 \<le> sc_Balance c \<and> sc_Balance c \<le> 1000000"
proof -
  from recharge_smart_card_update [OF s] obtain d0 v2 d3 where
    sc0: "smartcards d0 = smartcards d"
    and u: "update_smartcard cid
                (\<lambda>c. c\<lparr>sc_Balance := sc_Balance c + a,
                       sc_LastUsedAt := Some (CURRENT_TIMESTAMP clk)\<rparr>) d0 = Inr d3"
    and p: "insert_payment (fresh (map tx_TransactionID (transactions d))) m Success d3 = Inr (v2, d')"
    by blast
  from update_smartcard_bounds [OF _ u] inv sc0
  have "\<forall>c \<in> set (smartcards d3). 0 \<le> sc_Balance c \<and> sc_Balance c \<le> 1000000" by simp
  with insert_payment_frame [OF p] show ?thesis by simp
qed

lemma recharge_smart_card_over_limit:
  assumes "c \<in> set (smartcards d)" and "sc_CardID c = cid"
    and "1000000 < sc_Balance c + amount"
  shows "\<exists>e. recharge_smart_card clk u cid amount m d = Inl e"
proof (cases "recharge_smart_card clk u cid amount m d")
  case (Inl e)
  then show ?thesis by blast
next
  case (Inr p)
  obtain x d' where "p = (x, d')" by (cases p)
  with Inr have s: "recharge_smart_card clk u cid amount m d = Inr (x, d')" by simp
  from recharge_smart_card_update [OF s] obtain d0 d3 where
    sc0: "smartcards d0 = smartcards d"
    and u: "update_smartcard cid
                (\<lambda>c. c\<lparr>sc_Balance := sc_Balance c + amount,
                       sc_LastUsedAt := Some (CURRENT_TIMESTAMP clk)\<rparr>) d0 = Inr d3"
    by blast
  from update_smartcard_Inr(2) [OF u] sc0 assms(1,2)
  have "sc_Balance c + amount \<le> 1000000" by auto
  with assms(3) show ?thesis by simp
qed

lemma insert_smartcard_cards:
  assumes "insert_smartcard u b a d = Inr (c, d')"
  shows "smartcards d' = smartcards d @ [c] \<and> sc_Balance c = b \<and> 0 \<le> b \<and> b \<le> 1000000"
  using insert_smartcard_Inr [OF assms] by simp

lemma registerCard_bounds:
  assumes inv: "\<forall>c \<in> set (smartcards d). 0 \<le> sc_Balance c \<and> sc_Balance c \<le> 1000000"
  shows "\<forall>c \<in> set (smartcards (snd (registerCard clk u m d))). 0 \<le> sc_Balance c \<and> sc_Balance c \<le> 1000000"
  using inv
  by (auto simp: registerCard_def split: list.splits sum.splits
           dest!: insert_transaction_frame insert_payment_frame insert_smartcard_cards)

lemma handle_bounds:
  assumes inv: "\<forall>c \<in> set (smartcards d). 0 \<le> sc_Balance c \<and> sc_Balance c \<le> 1000000"
  shows "\<forall>c \<in> set (smartcards (snd (handle clk r d))). 0 \<le> sc_Balance c \<and> sc_Balance c \<le> 1000000"
proof (cases r)
  case (PostJourneyEntry mediaType mediaId stationId)
  obtain res d' where e: "journeyEntry clk mediaType mediaId stationId d = (res, d')"
    by (cases "journeyEntry clk mediaType mediaId stationId d")
  from journeyEntry_cases [OF e] inv
  have "\<forall>c \<in> set (smartcards d'). 0 \<le> sc_Balance c \<and> sc_Balance c \<le> 1000000"
    by (elim disjE exE conjE) (simp, (rule start_journey_bounds, assumption+)+)
  with PostJourneyEntry e inv show ?thesis by auto
next
  case (PostJourneyExit mediaType mediaId stationId)
  obtain res d' where e: "journeyExit clk mediaType mediaId stationId d = (res, d')"
    by (cases "journeyExit clk mediaType mediaId stationId d")
  from journeyExit_cases [OF e] inv
  have "\<forall>c \<in> set (smartcards d'). 0 \<le> sc_Balance c \<and> sc_Balance c \<le> 1000000"
    by (elim disjE exE conjE) (simp, (rule complete_journey_bounds, assumption+)+)
  with PostJourneyExit e inv show ?thesis by auto
next
  case (PostCardsRegister userId paymentMethod)
  with registerCard_bounds [OF inv] show ?thesis by simp
next
  case (PostCardsRecharge userId amount paymentMethod)
  have "\<forall>c \<in> set (smartcards (snd (rechargeCard clk userId amount paymentMethod d))).
          0 \<le> sc_Balance c \<and> sc_Balance c \<le> 1000000"
  proof (cases "filter (\<lambda>c. sc_UserID c = Some userId \<and> sc_IsActive c = True) (smartcards d)")
    case Nil
    with inv show ?thesis by (simp add: rechargeCard_def)
  next
    case (Cons c0 cs)
    show ?thesis
    proof (cases "recharge_smart_card clk userId (sc_CardID c0) amount paymentMethod d")
      case (Inl e)
      with Cons inv show ?thesis by (simp add: rechargeCard_def)
    next
      case (Inr p)
      obtain x d' where p: "p = (x, d')" by (cases p)
      with Inr recharge_smart_card_bounds [OF inv, of clk userId "sc_CardID c0" amount paymentMethod x d']
      have "\<forall>c \<in> set (smartcards d'). 0 \<le> sc_Balance c \<and> sc_Balance c \<le> 1000000" by simp
      with Cons Inr p show ?thesis by (simp add: rechargeCard_def)
    qed
  qed
  with PostCardsRecharge inv show ?thesis by simp
next
  case (PostTicketsBook userId fromStationId toStationId paymentMethod)
  with inv show ?thesis by (simp add: bookTicket_frame)
next
  case (GetStationsFares fromStationId toStationId)
  with inv show ?thesis by simp
qed

lemma run_bounds:
  "\<forall>c \<in> set (smartcards d). 0 \<le> sc_Balance c \<and> sc_Balance c \<le> 1000000 \<Longrightarrow>
   \<forall>c \<in> set (smartcards (run rs d)). 0 \<le> sc_Balance c \<and> sc_Balance c \<le> 1000000"
proof (induction rs arbitrary: d)
  case Nil
  then show ?case by simp
next
  case (Cons a rs)
  obtain clk r where a: "a = (clk, r)" by (cases a)
  from Cons.IH [OF handle_bounds [OF Cons.prems, of clk r]] a show ?case by simp
qed

lemma rechargeCard_over_limit:
  assumes "filter (\<lambda>c. sc_UserID c = Some userId \<and> sc_IsActive c = True) (smartcards d) = c # cs"
    and "1000000 < sc_Balance c + amount"
  shows "\<exists>code msg. rechargeCard clk userId amount m d = (Error code msg, d)"
proof -
  from assms(1) have "c \<in> set (filter (\<lambda>c. sc_UserID c = Some userId \<and> sc_IsActive c = True) (smartcards d))"
    by simp
  then have "c \<in> set (smartcards d)" by simp
  from recharge_smart_card_over_limit [OF this refl assms(2), of clk userId m]
  obtain e where "recharge_smart_card clk userId (sc_CardID c) amount m d = Inl e" by blast
  with assms(1) errorHandler_Error [of e] show ?thesis by (auto simp: rechargeCard_def)
qed

text \<open>
  Claim C6. If every card of a database has a balance between 0 and 10000.00, then so
  has every card after any sequence of requests to the routes. A recharge of a card whose
  balance plus the amount exceeds 10000.00 fails: \<open>recharge_smart_card\<close> raises (the
  statement is rolled back), and \<open>rechargeCard\<close> answers with an error and leaves the
  database, so the balance, as it was.
\<close>

theorem balance_within_bounds:
  "((\<forall>c \<in> set (smartcards d). 0 \<le> sc_Balance c \<and> sc_Balance c \<le> 1000000)
      \<longrightarrow> (\<forall>c \<in> set (smartcards (run rs d)). 0 \<le> sc_Balance c \<and> sc_Balance c \<le> 1000000))
   \<and> (c \<in> set (smartcards d) \<and> sc_CardID c = cardId \<and> 1000000 < sc_Balance c + amount
      \<longrightarrow> (\<exists>e. recharge_smart_card clk userId cardId amount paymentMethod d = Inl e))
   \<and> (filter (\<lambda>c. sc_UserID c = Some userId \<and> sc_IsActive c = True) (smartcards d) = c # cs
        \<and> 1000000 < sc_Balance c + amount
      \<longrightarrow> (\<exists>code msg. rechargeCard clk userId amount paymentMethod d = (Error code msg, d)))"
  using run_bounds [of d rs] recharge_smart_card_over_limit [of c d cardId amount clk userId paymentMethod]
    rechargeCard_over_limit [of userId d c cs amount clk paymentMethod]
  by blast


theorem balance_within_bounds_witness:
  "list_all (\<lambda>c. 0 \<le> sc_Balance c \<and> sc_Balance c \<le> 1000000) (smartcards db_ex)
   \<and> list_all (\<lambda>c. 0 \<le> sc_Balance c \<and> sc_Balance c \<le> 1000000)
        (smartcards (run [(clk_ex, PostCardsRecharge 1 100000 UPI),
                          (clk_ex, PostCardsRecharge 1 999000 UPI)] db_ex))
   \<and> \<lparr>sc_CardID = 1, sc_UserID = Some 1, sc_Balance = 5000, sc_IsActive = True,
        sc_LastUsedAt = None\<rparr> \<in> set (smartcards db_ex)
   \<and> (1000000::int) < 5000 + 999000
   \<and> recharge_smart_card clk_ex 1 1 999000 UPI db_ex
        = Inl (CheckViolation ''chk_smartcard_balance_limit'')
   \<and> filter (\<lambda>c. sc_UserID c = Some 1 \<and> sc_IsActive c = True) (smartcards db_ex)
        = [\<lparr>sc_CardID = 1, sc_UserID = Some 1, sc_Balance = 5000, sc_IsActive = True,
             sc_LastUsedAt = None\<rparr>]
   \<and> rechargeCard clk_ex 1 999000 UPI db_ex
        = (Error 500 (DatabaseMessage (CheckViolation ''chk_smartcard_balance_limit'')), db_ex)"
proof -
  let ?c = "\<lparr>sc_CardID = 1, sc_UserID = Some 1, sc_Balance = 5000, sc_IsActive = True,
             sc_LastUsedAt = None\<rparr>"
  have h1: "\<forall>c \<in> set (smartcards db_ex). 0 \<le> sc_Balance c \<and> sc_Balance c \<le> 1000000"
    by (simp add: db_ex_def)
  have h2: "?c \<in> set (smartcards db_ex) \<and> sc_CardID ?c = 1 \<and> 1000000 < sc_Balance ?c + 999000"
    by (simp add: db_ex_def)
  have h3: "filter (\<lambda>c. sc_UserID c = Some 1 \<and> sc_IsActive c = True) (smartcards db_ex) = ?c # []
            \<and> 1000000 < sc_Balance ?c + 999000"
    by (simp add: db_ex_def)
  have e1: "recharge_smart_card clk_ex 1 1 999000 UPI db_ex
        = Inl (CheckViolation ''chk_smartcard_balance_limit'')"
    by (simp add: run_defs)
  have e2: "rechargeCard clk_ex 1 999000 UPI db_ex
        = (Error 500 (DatabaseMessage (CheckViolation ''chk_smartcard_balance_limit'')), db_ex)"
    by (simp add: run_defs)
  from balance_within_bounds [of db_ex
         "[(clk_ex, PostCardsRecharge 1 100000 UPI), (clk_ex, PostCardsRecharge 1 999000 UPI)]"
         ?c 1 999000 clk_ex 1 UPI "[]"] h1 h2 h3 e1 e2
  show ?thesis by (simp add: list_all_iff)
qed

lemma recharge_example:
  "map sc_Balance (smartcards (run [(clk_ex, PostCardsRecharge 1 100000 UPI),
                                    (clk_ex, PostCardsRecharge 1 999000 UPI)] db_ex))
   = [105000, 1500]"
  by (simp add: run_defs)

section \<open>The \<open>IsUsed\<close> flag of a ticket\<close>

lemma start_journey_ticket:
  assumes s: "start_journey clk Ticket sid (Some tid) cid d = Inr (jid, d')"
  shows "\<exists>t. find (\<lambda>t. tk_TicketID t = tid) (tickets d) = Some t \<and> \<not> tk_IsUsed t
           \<and> tk_ValidFrom t \<le> CURRENT_TIMESTAMP clk \<and> CURRENT_TIMESTAMP clk \<le> tk_ValidUntil t"
    and "tickets d' =
           map (\<lambda>t. if tk_TicketID t = tid \<and> tk_IsUsed t = False
                     then t\<lparr>tk_IsUsed := True, tk_UsedAt := Some (CURRENT_TIMESTAMP clk)\<rparr>
                     else t) (tickets d)"
proof -
  from start_journey_Inr [OF s] obtain NEW where
    n: "NEW = \<lparr>jn_JourneyID = fresh (map jn_JourneyID (journeys d)), jn_JourneyType = Ticket,
                        jn_TicketID = Some tid, jn_CardID = cid, jn_EntryStationID = sid,
                        jn_EntryTime = CURRENT_TIMESTAMP clk,
                        jn_ExitStationID = None, jn_ExitTime = None,
                        jn_FareDeducted = None, jn_Status = Active\<rparr>"
    and i: "insert_journey clk NEW d = Inr d'"
    by blast
  from i have "fk_journey d NEW = None"
    by (auto simp: insert_journey_def split: option.splits)
  with n have "tid \<in> set (map tk_TicketID (tickets d))"
    by (auto simp: fk_journey_def split: if_splits)
  then have "find (\<lambda>t. tk_TicketID t = tid) (tickets d) \<noteq> None"
    by (auto simp: find_None_iff)
  then obtain t where t: "find (\<lambda>t. tk_TicketID t = tid) (tickets d) = Some t" by blast
  with s have "\<not> tk_IsUsed t \<and> tk_ValidFrom t \<le> CURRENT_TIMESTAMP clk
               \<and> CURRENT_TIMESTAMP clk \<le> tk_ValidUntil t"
    by (auto simp: start_journey_def split: if_splits)
  with t show "\<exists>t. find (\<lambda>t. tk_TicketID t = tid) (tickets d) = Some t \<and> \<not> tk_IsUsed t
           \<and> tk_ValidFrom t \<le> CURRENT_TIMESTAMP clk \<and> CURRENT_TIMESTAMP clk \<le> tk_ValidUntil t"
    by blast
  from insert_journey_Inr(2) [OF i] n
  show "tickets d' =
           map (\<lambda>t. if tk_TicketID t = tid \<and> tk_IsUsed t = False
                     then t\<lparr>tk_IsUsed := True, tk_UsedAt := Some (CURRENT_TIMESTAMP clk)\<rparr>
                     else t) (tickets d)"
    by (simp add: mark_ticket_used_def)
qed

lemma start_journey_card_tickets:
  assumes s: "start_journey clk ty sid None cid d = Inr (jid, d')"
  shows "tickets d' = tickets d"
proof -
  from start_journey_Inr [OF s] obtain NEW where
    n: "NEW = \<lparr>jn_JourneyID = fresh (map jn_JourneyID (journeys d)), jn_JourneyType = ty,
                        jn_TicketID = None, jn_CardID = cid, jn_EntryStationID = sid,
                        jn_EntryTime = CURRENT_TIMESTAMP clk,
                        jn_ExitStationID = None, jn_ExitTime = None,
                        jn_FareDeducted = None, jn_Status = Active\<rparr>"
    and i: "insert_journey clk NEW d = Inr d'"
    by blast
  from insert_journey_Inr(2) [OF i] n show ?thesis by (simp add: mark_ticket_used_def)
qed

lemma start_journey_used_ticket:
  assumes "find (\<lambda>t. tk_TicketID t = tid) (tickets d) = Some t" and "tk_IsUsed t"
  shows "start_journey clk Ticket sid (Some tid) cid d = Inl TicketInvalidOrUsed"
  using assms by (simp add: start_journey_def)

lemma handle_tickets:
  "tickets (snd (handle clk r d)) = tickets d
   \<or> (\<exists>t. tickets (snd (handle clk r d)) = tickets d @ [t] \<and> \<not> tk_IsUsed t
          \<and> tk_TicketID t = fresh (map tk_TicketID (tickets d)))
   \<or> (\<exists>tid sid jid t. r = PostJourneyEntry ''Ticket'' tid sid
          \<and> fst (handle clk r d) = EntryPermitted jid
          \<and> find (\<lambda>t. tk_TicketID t = tid) (tickets d) = Some t \<and> \<not> tk_IsUsed t
          \<and> tickets (snd (handle clk r d)) =
              map (\<lambda>t. if tk_TicketID t = tid \<and> tk_IsUsed t = False
                        then t\<lparr>tk_IsUsed := True, tk_UsedAt := Some (CURRENT_TIMESTAMP clk)\<rparr>
                        else t) (tickets d))"
  (is "?same \<or> ?booked \<or> ?entered")
proof (cases r)
  case (PostJourneyEntry mediaType mediaId stationId)
  show ?thesis
  proof (cases "(mediaType \<noteq> ''Ticket'' \<and> mediaType \<noteq> ''Card'') \<or> mediaId < 1 \<or> stationId < 1")
    case True
    with PostJourneyEntry show ?thesis by simp
  next
    case False
    obtain res d' where e: "journeyEntry clk mediaType mediaId stationId d = (res, d')"
      by (cases "journeyEntry clk mediaType mediaId stationId d")
    with False PostJourneyEntry have s: "handle clk r d = (res, d')" by auto
    from journeyEntry_cases [OF e] show ?thesis
    proof (elim disjE exE conjE)
      assume "d' = d"
      with s show ?thesis by simp
    next
      fix jid
      assume r: "res = EntryPermitted jid" and m: "mediaType = ''Ticket''"
        and b: "start_journey clk Ticket stationId (Some mediaId) None d = Inr (jid, d')"
      from start_journey_ticket [OF b] s r m PostJourneyEntry have ?entered by auto
      then show ?thesis by blast
    next
      fix jid
      assume b: "start_journey clk Card stationId None (Some mediaId) d = Inr (jid, d')"
      from start_journey_card_tickets [OF b] s show ?thesis by simp
    qed
  qed
next
  case (PostJourneyExit mediaType mediaId stationId)
  obtain res d' where e: "journeyExit clk mediaType mediaId stationId d = (res, d')"
    by (cases "journeyExit clk mediaType mediaId stationId d")
  from journeyExit_cases [OF e] have "tickets d' = tickets d"
    by (elim disjE exE conjE) (simp, (rule complete_journey_frame(1), assumption)+)
  with PostJourneyExit e show ?thesis by auto
next
  case (PostCardsRegister userId paymentMethod)
  then show ?thesis by (simp add: registerCard_frame)
next
  case (PostCardsRecharge userId amount paymentMethod)
  then show ?thesis by (simp add: rechargeCard_frame)
next
  case (PostTicketsBook userId fromStationId toStationId paymentMethod)
  with bookTicket_tickets [of clk userId fromStationId toStationId paymentMethod d]
  show ?thesis by auto
next
  case (GetStationsFares fromStationId toStationId)
  then show ?thesis by simp
qed

lemma handle_used_stays_used:
  assumes "find (\<lambda>t. tk_TicketID t = tid) (tickets d) = Some t" and "tk_IsUsed t"
  shows "find (\<lambda>t. tk_TicketID t = tid) (tickets (snd (handle clk r d))) = Some t"
  using handle_tickets [of clk r d]
proof (elim disjE exE conjE)
  assume "tickets (snd (handle clk r d)) = tickets d"
  with assms show ?thesis by simp
next
  fix t'
  assume "tickets (snd (handle clk r d)) = tickets d @ [t']"
  with assms show ?thesis by (simp add: find_append)
next
  fix tid' sid jid t'
  assume "tickets (snd (handle clk r d)) =
              map (\<lambda>t. if tk_TicketID t = tid' \<and> tk_IsUsed t = False
                        then t\<lparr>tk_IsUsed := True, tk_UsedAt := Some (CURRENT_TIMESTAMP clk)\<rparr>
                        else t) (tickets d)"
  then have "find (\<lambda>t. tk_TicketID t = tid) (tickets (snd (handle clk r d)))
        = map_option (\<lambda>t. if tk_TicketID t = tid' \<and> tk_IsUsed t = False
                        then t\<lparr>tk_IsUsed := True, tk_UsedAt := Some (CURRENT_TIMESTAMP clk)\<rparr>
                        else t) (find (\<lambda>t. tk_TicketID t = tid) (tickets d))"
    by (simp add: find_map_key [of tk_TicketID])
  with assms show ?thesis by simp
qed

lemma run_used_stays_used:
  "find (\<lambda>t. tk_TicketID t = tid) (tickets d) = Some t \<Longrightarrow> tk_IsUsed t \<Longrightarrow>
   find (\<lambda>t. tk_TicketID t = tid) (tickets (run rs d)) = Some t"
proof (induction rs arbitrary: d)
  case Nil
  then show ?case by simp
next
  case (Cons a rs)
  obtain clk r where a: "a = (clk, r)" by (cases a)
  from Cons.IH [OF handle_used_stays_used [OF Cons.prems, of clk r] Cons.prems(2)] a
  show ?case by simp
qed

lemma handle_unused_to_used:
  assumes f: "find (\<lambda>t. tk_TicketID t = tid) (tickets d) = Some t" and u: "\<not> tk_IsUsed t"
    and f': "find (\<lambda>t. tk_TicketID t = tid) (tickets (snd (handle clk r d))) = Some t'"
    and u': "tk_IsUsed t'"
  shows "\<exists>sid jid. r = PostJourneyEntry ''Ticket'' tid sid \<and> fst (handle clk r d) = EntryPermitted jid
           \<and> t' = t\<lparr>tk_IsUsed := True, tk_UsedAt := Some (CURRENT_TIMESTAMP clk)\<rparr>"
  using handle_tickets [of clk r d]
proof (elim disjE exE conjE)
  assume "tickets (snd (handle clk r d)) = tickets d"
  with f f' u u' show ?thesis by simp
next
  fix t0
  assume "tickets (snd (handle clk r d)) = tickets d @ [t0]"
  with f f' u u' show ?thesis by (simp add: find_append)
next
  fix tid' sid jid t0
  assume r: "r = PostJourneyEntry ''Ticket'' tid' sid" "fst (handle clk r d) = EntryPermitted jid"
    and m: "tickets (snd (handle clk r d)) =
              map (\<lambda>t. if tk_TicketID t = tid' \<and> tk_IsUsed t = False
                        then t\<lparr>tk_IsUsed := True, tk_UsedAt := Some (CURRENT_TIMESTAMP clk)\<rparr>
                        else t) (tickets d)"
  from m have "find (\<lambda>t. tk_TicketID t = tid) (tickets (snd (handle clk r d)))
        = map_option (\<lambda>t. if tk_TicketID t = tid' \<and> tk_IsUsed t = False
                        then t\<lparr>tk_IsUsed := True, tk_UsedAt := Some (CURRENT_TIMESTAMP clk)\<rparr>
                        else t) (find (\<lambda>t. tk_TicketID t = tid) (tickets d))"
    by (simp add: find_map_key [of tk_TicketID])
  with f f' have t': "t' = (if tk_TicketID t = tid' \<and> tk_IsUsed t = False
                        then t\<lparr>tk_IsUsed := True, tk_UsedAt := Some (CURRENT_TIMESTAMP clk)\<rparr>
                        else t)" by simp
  from find_SomeD [OF f] have "tk_TicketID t = tid" by simp
  with t' u u' r show ?thesis by (auto split: if_splits)
qed

lemma journeyEntry_used_ticket:
  assumes "find (\<lambda>t. tk_TicketID t = tid) (tickets d) = Some t" and "tk_IsUsed t"
  shows "\<exists>code msg. journeyEntry clk ''Ticket'' tid sid d = (Error code msg, d)"
proof -
  obtain res d' where e: "journeyEntry clk ''Ticket'' tid sid d = (res, d')"
    by (cases "journeyEntry clk ''Ticket'' tid sid d")
  from journeyEntry_cases [OF e] start_journey_used_ticket [OF assms, of clk sid None]
  have "d' = d \<and> (\<exists>code msg. res = Error code msg)" by auto
  with e show ?thesis by auto
qed

lemma journeyEntry_ticket_permitted:
  assumes e: "journeyEntry clk ''Ticket'' tid sid d = (EntryPermitted jid, d')"
  shows "\<exists>t. find (\<lambda>t. tk_TicketID t = tid) (tickets d) = Some t \<and> \<not> tk_IsUsed t
           \<and> find (\<lambda>t. tk_TicketID t = tid) (tickets d')
               = Some (t\<lparr>tk_IsUsed := True, tk_UsedAt := Some (CURRENT_TIMESTAMP clk)\<rparr>)"
proof -
  from journeyEntry_cases [OF e]
  have s: "start_journey clk Ticket sid (Some tid) None d = Inr (jid, d')" by auto
  from start_journey_ticket(1) [OF s] obtain t where
    t: "find (\<lambda>t. tk_TicketID t = tid) (tickets d) = Some t" "\<not> tk_IsUsed t" by blast
  from find_SomeD [OF t(1)] have id: "tk_TicketID t = tid" by simp
  have "find (\<lambda>t. tk_TicketID t = tid) (tickets d')
        = map_option (\<lambda>t. if tk_TicketID t = tid \<and> tk_IsUsed t = False
                     then t\<lparr>tk_IsUsed := True, tk_UsedAt := Some (CURRENT_TIMESTAMP clk)\<rparr>
                     else t) (find (\<lambda>t. tk_TicketID t = tid) (tickets d))"
    by (simp add: start_journey_ticket(2) [OF s] find_map_key [of tk_TicketID])
  with t id show ?thesis by simp
qed

text \<open>
  Claim C7. Look a ticket up by its id.
  \<^item> Once its \<open>IsUsed\<close> is true, its row is the same after any sequence of requests to
    the routes, every \<open>journeyEntry\<close> with it is rejected without a write, and
    \<open>start_journey\<close> raises \<open>Ticket is invalid or already used\<close>.
  \<^item> If a request finds it unused and leaves it used, the request is a gate entry with
    this ticket that answered \<open>Entry permitted\<close>, and the row it leaves differs only in
    \<open>IsUsed = TRUE\<close> and \<open>UsedAt =\<close> the entry time.
  \<^item> Every permitted entry with a ticket finds the ticket unused and leaves it used.
\<close>

theorem ticket_used_exactly_once:
  "(find (\<lambda>t. tk_TicketID t = tid) (tickets d) = Some t \<and> tk_IsUsed t
      \<longrightarrow> find (\<lambda>t. tk_TicketID t = tid) (tickets (run rs d)) = Some t
        \<and> (\<exists>code msg. journeyEntry clk ''Ticket'' tid sid d = (Error code msg, d))
        \<and> start_journey clk Ticket sid (Some tid) None d = Inl TicketInvalidOrUsed)
   \<and> (find (\<lambda>t. tk_TicketID t = tid) (tickets d) = Some t \<and> \<not> tk_IsUsed t
        \<and> find (\<lambda>t. tk_TicketID t = tid) (tickets (snd (handle clk r d))) = Some t' \<and> tk_IsUsed t'
      \<longrightarrow> (\<exists>sid jid. r = PostJourneyEntry ''Ticket'' tid sid
             \<and> fst (handle clk r d) = EntryPermitted jid
             \<and> t' = t\<lparr>tk_IsUsed := True, tk_UsedAt := Some (CURRENT_TIMESTAMP clk)\<rparr>))
   \<and> (journeyEntry clk ''Ticket'' tid sid d = (EntryPermitted jid, d')
      \<longrightarrow> (\<exists>t. find (\<lambda>t. tk_TicketID t = tid) (tickets d) = Some t \<and> \<not> tk_IsUsed t
             \<and> find (\<lambda>t. tk_TicketID t = tid) (tickets d')
                 = Some (t\<lparr>tk_IsUsed := True, tk_UsedAt := Some (CURRENT_TIMESTAMP clk)\<rparr>)))"
  using run_used_stays_used [of tid d t rs] journeyEntry_used_ticket [of tid d t clk sid]
    start_journey_used_ticket [of tid d t clk sid None]
    handle_unused_to_used [of tid d t clk r t']
    journeyEntry_ticket_permitted [of clk tid sid d jid d']
  by blast

theorem ticket_used_exactly_once_witness:
  "find (\<lambda>t. tk_TicketID t = 1) (tickets db_ticket_entered)
     = Some (ticket_ex\<lparr>tk_IsUsed := True, tk_UsedAt := Some 100\<rparr>)
   \<and> tk_IsUsed (ticket_ex\<lparr>tk_IsUsed := True, tk_UsedAt := Some 100\<rparr>)
   \<and> find (\<lambda>t. tk_TicketID t = 1)
        (tickets (run [(clk_ex, PostJourneyExit ''Ticket'' 1 2),
                       (clk_ex, PostJourneyEntry ''Ticket'' 1 1)] db_ticket_entered))
       = Some (ticket_ex\<lparr>tk_IsUsed := True, tk_UsedAt := Some 100\<rparr>)
   \<and> journeyEntry clk_ex ''Ticket'' 1 1 db_ticket_entered
       = (Error 400 TicketAlreadyUsed, db_ticket_entered)
   \<and> find (\<lambda>t. tk_TicketID t = 1) (tickets db_booked) = Some ticket_ex
   \<and> \<not> tk_IsUsed ticket_ex
   \<and> find (\<lambda>t. tk_TicketID t = 1)
        (tickets (snd (handle clk_ex (PostJourneyEntry ''Ticket'' 1 1) db_booked)))
       = Some (ticket_ex\<lparr>tk_IsUsed := True, tk_UsedAt := Some 100\<rparr>)
   \<and> journeyEntry clk_ex ''Ticket'' 1 1 db_booked = (EntryPermitted 1, db_ticket_entered)"
proof -
  let ?used = "ticket_ex\<lparr>tk_IsUsed := True, tk_UsedAt := Some 100\<rparr>"
  have a: "find (\<lambda>t. tk_TicketID t = 1) (tickets db_ticket_entered) = Some ?used \<and> tk_IsUsed ?used"
    by (simp add: run_defs)
  have b: "journeyEntry clk_ex ''Ticket'' 1 1 db_ticket_entered
       = (Error 400 TicketAlreadyUsed, db_ticket_entered)"
    by (simp add: run_defs)
  have c: "journeyEntry clk_ex ''Ticket'' 1 1 db_booked = (EntryPermitted 1, db_ticket_entered)"
    by (simp add: run_defs)
  have d: "find (\<lambda>t. tk_TicketID t = 1) (tickets db_booked) = Some ticket_ex \<and> \<not> tk_IsUsed ticket_ex"
    by (simp add: run_defs)
  have e: "find (\<lambda>t. tk_TicketID t = 1)
        (tickets (snd (handle clk_ex (PostJourneyEntry ''Ticket'' 1 1) db_booked))) = Some ?used
        \<and> tk_IsUsed ?used"
    using c a by simp
  from ticket_used_exactly_once [of 1 db_ticket_entered ?used
         "[(clk_ex, PostJourneyExit ''Ticket'' 1 2), (clk_ex, PostJourneyEntry ''Ticket'' 1 1)]"
         clk_ex 1 "PostJourneyEntry ''Ticket'' 1 1" ?used 1 db_ticket_entered]
       ticket_used_exactly_once [of 1 db_booked ticket_ex "[]"
         clk_ex 1 "PostJourneyEntry ''Ticket'' 1 1" ?used 1 db_ticket_entered]
       a b c d e
  show ?thesis by simp
qed

section \<open>Completed journeys stay completed\<close>

lemma complete_journey_twice:
  assumes "complete_journey clk jid sid d = Inr (fd, d')"
  shows "complete_journey clk2 jid sid2 d' = Inl JourneyNotActive"
proof -
  from complete_journey_journeys [OF assms] obtain OLD NEW where
    f: "find (\<lambda>j. jn_JourneyID j = jid) (journeys d) = Some OLD"
    and n: "jn_Status NEW = Completed" "jn_JourneyID NEW = jid"
    and j: "journeys d' = map (\<lambda>j. if jn_JourneyID j = jid then NEW else j) (journeys d)"
    by blast
  from f have "find (\<lambda>j. jn_JourneyID j = jid) (journeys d') = Some NEW"
    by (simp add: j find_replace [of jn_JourneyID, OF n(2)])
  with n show ?thesis by (simp add: complete_journey_def)
qed

lemma filter_map_empty: "(\<And>x. x \<in> set xs \<Longrightarrow> \<not> P (f x)) \<Longrightarrow> filter P (map f xs) = []"
  by (induction xs) auto

lemma map_key_replace:
  "key N = k \<Longrightarrow> map key (map (\<lambda>x. if key x = k then N else x) xs) = map key xs"
  by (induction xs) auto

lemma filter_replace_empty:
  assumes one: "filter P xs = [j]" and np: "\<not> P NEW"
  shows "filter P (map (\<lambda>x. if key x = key j then NEW else x) xs) = []"
proof -
  have "\<not> P (if key x = key j then NEW else x)" if "x \<in> set xs" for x
  proof (cases "key x = key j")
    case True
    with np show ?thesis by simp
  next
    case False
    have "\<not> P x"
    proof
      assume "P x"
      with that have "x \<in> set (filter P xs)" by simp
      with one have "x = j" by simp
      with False show False by simp
    qed
    with False show ?thesis by simp
  qed
  then show ?thesis by (rule filter_map_empty)
qed

lemma length_le_1_Cons: "length (x # xs) \<le> 1 \<Longrightarrow> xs = []"
  by simp

lemma card_exit_leaves_none_active:
  assumes sel: "select_active_journey_of_card m d = j # rest"
    and inv: "length (select_active_journey_of_card m d) \<le> 1"
    and c: "complete_journey clk (jn_JourneyID j) sid d = Inr (fd, d')"
  shows "select_active_journey_of_card m d' = []"
proof -
  from sel inv have "rest = []" by simp
  with sel have one: "filter (\<lambda>j. jn_CardID j = Some m \<and> jn_Status j = Active) (journeys d) = [j]"
    by (simp add: select_active_journey_of_card_def)
  from complete_journey_journeys [OF c] obtain NEW where
    n: "jn_Status NEW = Completed"
    and js: "journeys d' = map (\<lambda>x. if jn_JourneyID x = jn_JourneyID j then NEW else x) (journeys d)"
    by blast
  from n have "\<not> (jn_CardID NEW = Some m \<and> jn_Status NEW = Active)" by simp
  from filter_replace_empty [of "\<lambda>j. jn_CardID j = Some m \<and> jn_Status j = Active", OF one this]
  show ?thesis by (simp add: select_active_journey_of_card_def js)
qed

lemma ticket_exit_leaves_none_active:
  assumes sel: "select_active_journey_with_booking m d = (j, b) # rest"
    and inv: "length (select_active_journey_of_ticket m d) \<le> 1"
    and c: "complete_journey clk (jn_JourneyID j) sid d = Inr (fd, d')"
  shows "select_active_journey_of_ticket m d' = []"
proof -
  from sel have "(j, b) \<in> set (select_active_journey_with_booking m d)" by simp
  then have "j \<in> set (select_active_journey_of_ticket m d)"
    by (auto simp: select_active_journey_with_booking_def)
  with inv have "select_active_journey_of_ticket m d = [j]"
    by (cases "select_active_journey_of_ticket m d") auto
  then have one: "filter (\<lambda>j. jn_TicketID j = Some m \<and> jn_Status j = Active) (journeys d) = [j]"
    by (simp add: select_active_journey_of_ticket_def)
  from complete_journey_journeys [OF c] obtain NEW where
    n: "jn_Status NEW = Completed"
    and js: "journeys d' = map (\<lambda>x. if jn_JourneyID x = jn_JourneyID j then NEW else x) (journeys d)"
    by blast
  from n have "\<not> (jn_TicketID NEW = Some m \<and> jn_Status NEW = Active)" by simp
  from filter_replace_empty [of "\<lambda>j. jn_TicketID j = Some m \<and> jn_Status j = Active", OF one this]
  show ?thesis by (simp add: select_active_journey_of_ticket_def js)
qed

lemma journeyExit_no_active:
  assumes "mediaType = ''Ticket'' \<and> select_active_journey_of_ticket mediaId d = []
         \<or> mediaType = ''Card'' \<and> select_active_journey_of_card mediaId d = []"
  shows "(\<exists>code msg. journeyExit clk mediaType mediaId stationId d = (Error code msg, d))
       \<and> (find (\<lambda>s. st_StationID s = stationId) (stations d) = Some st \<and> st_IsOperational st
            \<longrightarrow> journeyExit clk mediaType mediaId stationId d = (Error 404 NoActiveJourney, d))"
  using assms
  by (auto simp: journeyExit_def select_active_journey_with_booking_def split: option.splits)

lemma journeyExit_twice:
  assumes e: "journeyExit clk mediaType mediaId stationId d = (ExitPermitted jid fc nb w, d')"
    and inv: "\<forall>m. length (select_active_journey_of_ticket m d) \<le> 1
                 \<and> length (select_active_journey_of_card m d) \<le> 1"
  shows "complete_journey clk2 jid sid2 d' = Inl JourneyNotActive
       \<and> (\<exists>code msg. journeyExit clk2 mediaType mediaId sid2 d' = (Error code msg, d'))
       \<and> (find (\<lambda>s. st_StationID s = sid2) (stations d') = Some st \<and> st_IsOperational st
            \<longrightarrow> journeyExit clk2 mediaType mediaId sid2 d' = (Error 404 NoActiveJourney, d'))"
proof -
  from inv have it: "length (select_active_journey_of_ticket mediaId d) \<le> 1"
    and ic: "length (select_active_journey_of_card mediaId d) \<le> 1" by simp_all
  from journeyExit_cases [OF e]
  have "complete_journey clk2 jid sid2 d' = Inl JourneyNotActive
      \<and> (mediaType = ''Ticket'' \<and> select_active_journey_of_ticket mediaId d' = []
         \<or> mediaType = ''Card'' \<and> select_active_journey_of_card mediaId d' = [])"
  proof (elim disjE exE conjE)
    fix j b rest fd
    assume m: "mediaType = ''Ticket''"
      and s: "select_active_journey_with_booking mediaId d = (j, b) # rest"
      and c: "complete_journey clk (jn_JourneyID j) stationId d = Inr (fd, d')"
      and r: "ExitPermitted jid fc nb w = ExitPermitted (jn_JourneyID j) (Num (bk_TotalFare b)) None
                    (stationId \<noteq> bk_DestinationStationID b)"
    from r have "jid = jn_JourneyID j" by simp
    with complete_journey_twice [OF c] ticket_exit_leaves_none_active [OF s it c] m
    show ?thesis by simp
  next
    fix j rest c0 fd
    assume m: "mediaType = ''Card''"
      and s: "select_active_journey_of_card mediaId d = j # rest"
      and c: "complete_journey clk (jn_JourneyID j) stationId d = Inr (fd, d')"
      and r: "ExitPermitted jid fc nb w = ExitPermitted (jn_JourneyID j) (parseFloat fd)
                    (Some (js_minus (Num (sc_Balance c0)) (parseFloat fd))) False"
    from r have "jid = jn_JourneyID j" by simp
    with complete_journey_twice [OF c] card_exit_leaves_none_active [OF s ic c] m
    show ?thesis by simp
  qed simp
  with journeyExit_no_active [of mediaType mediaId d' clk2 sid2 st] show ?thesis by blast
qed

lemma handle_terminal:
  assumes dis: "distinct (map jn_JourneyID (journeys d))"
    and j0: "j0 \<in> set (journeys d)" and st: "jn_Status j0 \<noteq> Active"
  shows "distinct (map jn_JourneyID (journeys (snd (handle clk r d))))
       \<and> j0 \<in> set (journeys (snd (handle clk r d)))"
  using handle_journeys [of clk r d]
proof (elim disjE exE conjE)
  assume "journeys (snd (handle clk r d)) = journeys d"
  with assms show ?thesis by simp
next
  fix NEW m
  assume a: "journeys (snd (handle clk r d)) = journeys d @ [NEW]"
    and f: "jn_JourneyID NEW = fresh (map jn_JourneyID (journeys d))"
  from f fresh_notin [of "map jn_JourneyID (journeys d)"]
  have "jn_JourneyID NEW \<notin> set (map jn_JourneyID (journeys d))" by simp
  with a dis j0 show ?thesis by simp
next
  fix NEW m
  assume a: "journeys (snd (handle clk r d)) = journeys d @ [NEW]"
    and f: "jn_JourneyID NEW = fresh (map jn_JourneyID (journeys d))"
  from f fresh_notin [of "map jn_JourneyID (journeys d)"]
  have "jn_JourneyID NEW \<notin> set (map jn_JourneyID (journeys d))" by simp
  with a dis j0 show ?thesis by simp
next
  fix OLD NEW
  assume f: "find (\<lambda>j. jn_JourneyID j = jn_JourneyID NEW) (journeys d) = Some OLD"
    and o: "jn_Status OLD = Active"
    and a: "journeys (snd (handle clk r d)) =
             map (\<lambda>j. if jn_JourneyID j = jn_JourneyID NEW then NEW else j) (journeys d)"
  have ids: "map jn_JourneyID
               (map (\<lambda>j. if jn_JourneyID j = jn_JourneyID NEW then NEW else j) (journeys d))
             = map jn_JourneyID (journeys d)"
    by (rule map_key_replace) simp
  from find_SomeD [OF f] have O: "jn_JourneyID OLD = jn_JourneyID NEW" "OLD \<in> set (journeys d)"
    by simp_all
  have "jn_JourneyID j0 \<noteq> jn_JourneyID NEW"
  proof
    assume "jn_JourneyID j0 = jn_JourneyID NEW"
    with O have "jn_JourneyID j0 = jn_JourneyID OLD" by simp
    with dis j0 O(2) have "j0 = OLD" by (meson distinct_map inj_onD)
    with o st show False by simp
  qed
  with j0 have mem: "j0 \<in> set (map (\<lambda>j. if jn_JourneyID j = jn_JourneyID NEW then NEW else j) (journeys d))"
    by force
  show ?thesis unfolding a ids using dis mem by blast
qed

lemma run_terminal:
  "distinct (map jn_JourneyID (journeys d)) \<Longrightarrow> j0 \<in> set (journeys d) \<Longrightarrow> jn_Status j0 \<noteq> Active \<Longrightarrow>
   j0 \<in> set (journeys (run rs d))"
proof (induction rs arbitrary: d)
  case Nil
  then show ?case by simp
next
  case (Cons a rs)
  obtain clk r where a: "a = (clk, r)" by (cases a)
  from handle_terminal [OF Cons.prems, of clk r]
  have "distinct (map jn_JourneyID (journeys (snd (handle clk r d))))"
    "j0 \<in> set (journeys (snd (handle clk r d)))" by simp_all
  from Cons.IH [OF this Cons.prems(3)] a show ?case by simp
qed

text \<open>
  Claim C8. Start from a database in which every ticket and every card has at most one
  \<open>Active\<close> journey, and let a gate exit be permitted. Then on the database it leaves,
  \<open>complete_journey\<close> for the same journey raises \<open>Journey is not active\<close>, and every
  further \<open>journeyExit\<close> for the same ticket or card is rejected without a write: with
  404 \<open>No active journey found for this media\<close> whenever the station exists and is
  operational. And a journey row whose status is not \<open>Active\<close> is still in the table,
  unchanged, after any sequence of requests to the routes (journey ids being a key).
\<close>

theorem second_exit_rejected:
  "(journeyExit clk mediaType mediaId stationId d = (ExitPermitted jid fc nb w, d')
      \<and> (\<forall>m. length (select_active_journey_of_ticket m d) \<le> 1
             \<and> length (select_active_journey_of_card m d) \<le> 1)
    \<longrightarrow> complete_journey clk2 jid sid2 d' = Inl JourneyNotActive
       \<and> (\<exists>code msg. journeyExit clk2 mediaType mediaId sid2 d' = (Error code msg, d'))
       \<and> (find (\<lambda>s. st_StationID s = sid2) (stations d') = Some st \<and> st_IsOperational st
            \<longrightarrow> journeyExit clk2 mediaType mediaId sid2 d' = (Error 404 NoActiveJourney, d')))
   \<and> (distinct (map jn_JourneyID (journeys d)) \<and> j0 \<in> set (journeys d) \<and> jn_Status j0 \<noteq> Active
    \<longrightarrow> j0 \<in> set (journeys (run rs d)))"
  using journeyExit_twice [of clk mediaType mediaId stationId d jid fc nb w d' clk2 sid2 st]
    run_terminal [of d j0 rs]
  by blast


theorem second_exit_rejected_witness:
  "journeyExit clk_ex ''Card'' 1 2 db_entered
     = (ExitPermitted 1 (Num 3000) (Some (Num 2000)) False, db_settled)
   \<and> (\<forall>m. length (select_active_journey_of_ticket m db_entered) \<le> 1
          \<and> length (select_active_journey_of_card m db_entered) \<le> 1)
   \<and> find (\<lambda>s. st_StationID s = 2) (stations db_settled)
       = Some \<lparr>st_StationID = 2, st_IsOperational = True\<rparr>
   \<and> complete_journey clk_ex 1 2 db_settled = Inl JourneyNotActive
   \<and> journeyExit clk_ex ''Card'' 1 2 db_settled = (Error 404 NoActiveJourney, db_settled)
   \<and> distinct (map jn_JourneyID (journeys db_settled))
   \<and> journey_ex\<lparr>jn_ExitStationID := Some 2, jn_ExitTime := Some 1000100,
                  jn_FareDeducted := Some 3000, jn_Status := Completed\<rparr>
       \<in> set (journeys db_settled)
   \<and> journey_ex\<lparr>jn_ExitStationID := Some 2, jn_ExitTime := Some 1000100,
                  jn_FareDeducted := Some 3000, jn_Status := Completed\<rparr>
       \<in> set (journeys (run [(clk_ex, PostJourneyExit ''Card'' 1 2),
                              (clk_ex, PostJourneyEntry ''Card'' 1 1),
                              (clk_ex, PostJourneyExit ''Card'' 1 2)] db_settled))"
proof -
  let ?j = "journey_ex\<lparr>jn_ExitStationID := Some 2, jn_ExitTime := Some 1000100,
                  jn_FareDeducted := Some 3000, jn_Status := Completed\<rparr>"
  let ?st = "\<lparr>st_StationID = 2, st_IsOperational = True\<rparr>"
  have a: "journeyExit clk_ex ''Card'' 1 2 db_entered
     = (ExitPermitted 1 (Num 3000) (Some (Num 2000)) False, db_settled)"
    by (simp add: run_defs)
  have b: "\<forall>m. length (select_active_journey_of_ticket m db_entered) \<le> 1
          \<and> length (select_active_journey_of_card m db_entered) \<le> 1"
    by (simp add: run_defs)
  have c: "find (\<lambda>s. st_StationID s = 2) (stations db_settled) = Some ?st \<and> st_IsOperational ?st"
    by (simp add: run_defs)
  have e: "distinct (map jn_JourneyID (journeys db_settled)) \<and> ?j \<in> set (journeys db_settled)
           \<and> jn_Status ?j \<noteq> Active"
    by (simp add: run_defs)
  from second_exit_rejected [where clk = clk_ex and mediaType = "''Card''" and mediaId = 1
         and stationId = 2 and d = db_entered and jid = 1 and fc = "Num 3000"
         and nb = "Some (Num 2000)" and w = False and d' = db_settled and ?clk2.0 = clk_ex
         and ?sid2.0 = 2 and st = ?st]
       second_exit_rejected [where d = db_settled and ?j0.0 = ?j
         and rs = "[(clk_ex, PostJourneyExit ''Card'' 1 2),
                    (clk_ex, PostJourneyEntry ''Card'' 1 1),
                    (clk_ex, PostJourneyExit ''Card'' 1 2)]"]
       a b c e
  show ?thesis by simp
qed

section \<open>Two gate entries of one card that arrive together\<close>

text \<open>
  \<open>journeyEntry\<close> for a card is its \<open>SELECT\<close>s followed by the call of \<open>start_journey\<close>:
  the two parts that \<open>two_card_entries_interleaved\<close> schedules are the handler.
\<close>

lemma journeyEntry_card_statements:
  "journeyEntry clk ''Card'' mediaId stationId d =
     (case journeyEntry_card_checks mediaId stationId d of
        Some r \<Rightarrow> (r, d)
      | None \<Rightarrow> journeyEntry_card_start clk mediaId stationId d)"
  by (simp add: journeyEntry_def journeyEntry_card_checks_def journeyEntry_card_start_def
           split: option.splits)

text \<open>
  Claim C9 on the code. Two requests \<open>POST /api/journey/entry\<close> for card 1 at station 1
  arrive together on the example network, where the card has no journey. Each handler
  sends its \<open>SELECT\<close>s before either calls \<open>start_journey\<close>: both find no \<open>Active\<close>
  journey of the card, both calls of \<open>start_journey\<close> insert a row, both requests are
  answered \<open>Entry permitted\<close>, and the card has two \<open>Active\<close> journeys. When the second
  request starts after the first has finished, it is rejected with
  \<open>Active journey already exists for this card\<close>.
\<close>

theorem two_card_entries_both_start:
  "journeyEntry_card_checks 1 1 db_ex = None
   \<and> journeyEntry_card_start clk_ex 1 1 db_ex = (EntryPermitted 1, db_entered)
   \<and> journeyEntry_card_start clk_ex 1 1 db_entered = (EntryPermitted 2, db_two_active)
   \<and> two_card_entries_interleaved clk_ex 1 1 clk_ex 1 1 db_ex
       = ((EntryPermitted 1, EntryPermitted 2), db_two_active)
   \<and> select_active_journey_of_card 1 db_two_active
       = [journey_ex, journey_ex\<lparr>jn_JourneyID := 2\<rparr>]
   \<and> length (select_active_journey_of_card 1 db_two_active) = 2
   \<and> journeyEntry clk_ex ''Card'' 1 1 db_entered
       = (Error 400 ActiveJourneyExistsForCard, db_entered)"
  by (simp add: run_defs db_two_active_def journeyEntry_card_checks_def
        journeyEntry_card_start_def two_card_entries_interleaved_def)

section \<open>The scenarios of the specification, run on the example network\<close>

text \<open>
  Scenario A: a booked ticket enters at its source station, a second entry with it is
  rejected, and its holder leaves at the destination; the fare charged is the fare paid.
\<close>

lemma scenario_ticket:
  "journeyEntry clk_ex ''Ticket'' 1 1 db_booked = (EntryPermitted 1, db_ticket_entered)"
  "journeyEntry clk_ex ''Ticket'' 1 1 db_ticket_entered
     = (Error 400 TicketAlreadyUsed, db_ticket_entered)"
  "journeyExit clk_ex ''Ticket'' 1 2 db_ticket_entered
     = (ExitPermitted 1 (Num 3000) None False, db_ticket_left)"
  by (simp_all add: run_defs)

text \<open>Scenario B: a card holding 50.00 enters and leaves where the fare is 30.00.\<close>

lemma scenario_card:
  "journeyEntry clk_ex ''Card'' 1 1 db_ex = (EntryPermitted 1, db_entered)"
  "journeyExit clk_ex ''Card'' 1 2 db_entered
     = (ExitPermitted 1 (Num 3000) (Some (Num 2000)) False, db_settled)"
  by (simp_all add: run_defs)

text \<open>Scenario C: a card holding 5.00 is not admitted.\<close>

lemma scenario_floor:
  "journeyEntry clk_ex ''Card'' 1 1
     (db_ex\<lparr>smartcards :=
        [\<lparr>sc_CardID = 1, sc_UserID = Some 1, sc_Balance = 500, sc_IsActive = True,
           sc_LastUsedAt = None\<rparr>]\<rparr>)
   = (Error 400 InsufficientBalance,
      db_ex\<lparr>smartcards :=
        [\<lparr>sc_CardID = 1, sc_UserID = Some 1, sc_Balance = 500, sc_IsActive = True,
           sc_LastUsedAt = None\<rparr>]\<rparr>)"
  by (simp add: run_defs)

text \<open>Scenario E: recharges of 5.00 and of 15000.00 fail validation.\<close>

lemma scenario_recharge_range:
  "handle clk_ex (PostCardsRecharge 1 500 UPI) db_ex = (Error 400 ValidationFailed, db_ex)"
  "handle clk_ex (PostCardsRecharge 1 1500000 UPI) db_ex = (Error 400 ValidationFailed, db_ex)"
  by simp_all

text \<open>
  The check for an \<open>Active\<close> journey is a query of \<open>journeyEntry\<close>; \<open>start_journey\<close> has
  none for a card. Called twice for card 1 it stores two \<open>Active\<close> journeys.
\<close>

lemma start_journey_has_no_active_check:
  "start_journey clk_ex Card 1 None (Some 1) db_entered
     = Inr (2, db_entered\<lparr>journeys := [journey_ex, journey_ex\<lparr>jn_JourneyID := 2\<rparr>]\<rparr>)"
  "length (select_active_journey_of_card 1
             (db_entered\<lparr>journeys := [journey_ex, journey_ex\<lparr>jn_JourneyID := 2\<rparr>]\<rparr>)) = 2"
  by (simp_all add: run_defs)

text \<open>
  What \<open>journeyExit\<close> reports for a card when the fare is positive (journey ids being a
  key): the fare as \<open>fareCharged\<close> and the balance less the fare as \<open>newBalance\<close>.
\<close>

lemma find_distinct_key:
  assumes "distinct (map key xs)" and "x \<in> set xs"
  shows "find (\<lambda>y. key y = key x) xs = Some x"
  using assms by (induction xs) force+

lemma journeyExit_card_reports_fare:
  assumes e: "journeyExit clk ''Card'' mediaId stationId d = (ExitPermitted jid fc nb w, d')"
    and sel: "select_active_journey_of_card mediaId d = j # rest"
    and dis: "distinct (map jn_JourneyID (journeys d))"
    and c: "find (\<lambda>c. sc_CardID c = mediaId) (smartcards d) = Some c"
    and pos: "0 < get_current_fare clk (jn_EntryStationID j) stationId d"
  shows "fc = Num (get_current_fare clk (jn_EntryStationID j) stationId d)
       \<and> nb = Some (Num (sc_Balance c - get_current_fare clk (jn_EntryStationID j) stationId d))
       \<and> jid = jn_JourneyID j"
proof -
  let ?fare = "get_current_fare clk (jn_EntryStationID j) stationId d"
  from journeyExit_cases [OF e] sel c obtain fd where
    cj: "complete_journey clk (jn_JourneyID j) stationId d = Inr (fd, d')"
    and r: "ExitPermitted jid fc nb w = ExitPermitted (jn_JourneyID j) (parseFloat fd)
                    (Some (js_minus (Num (sc_Balance c)) (parseFloat fd))) False"
    by auto
  from sel have "j \<in> set (select_active_journey_of_card mediaId d)" by simp
  then have jin: "j \<in> set (journeys d)" and jc: "jn_CardID j = Some mediaId"
    by (simp_all add: select_active_journey_of_card_def)
  from find_distinct_key [OF dis jin]
  have f: "find (\<lambda>y. jn_JourneyID y = jn_JourneyID j) (journeys d) = Some j" .
  let ?NEW0 = "j\<lparr>jn_ExitStationID := Some stationId,
                  jn_ExitTime := Some (CURRENT_TIMESTAMP clk + 1000000),
                  jn_Status := Completed\<rparr>"
  from complete_journey_Inr [OF cj] f obtain NEW d1 where
    act: "jn_Status j = Active"
    and trg: "complete_journey_fare clk j ?NEW0 d = Inr (NEW, d1)"
    and fd: "fd = jn_FareDeducted NEW"
    by auto
  from act have nc: "jn_Status j \<noteq> Completed" by simp
  from complete_journey_fare_charged [OF trg, of stationId mediaId] jc nc pos
  have "NEW = ?NEW0\<lparr>jn_FareDeducted := Some ?fare\<rparr>" by auto
  with fd have "fd = Some ?fare" by simp
  with r show ?thesis by (simp add: parseFloat_def)
qed

end
